theory Spec2Isabelle
  imports Main "HOL-Library.AList"
begin

section \<open>JavaScript values and the wire protocol\<close>

text \<open>
  Values that travel through the server: what \<open>JSON.parse\<close> returns, what a source holds,
  what a callback receives. An object is its list of own properties.
\<close>

datatype json =
    JUndefined
  | JNull
  | JBool bool
  | JNum int
  | JStr string
  | JArr "json list"
  | JObj "(string \<times> json) list"

text \<open>Exceptions the server code can raise: reading a property of \<open>null\<close> or calling
  \<open>undefined\<close> is a \<open>TypeError\<close>, \<open>JSON.parse\<close> on malformed text a \<open>SyntaxError\<close>.\<close>

datatype fault = TypeError | SyntaxError

text \<open>\<open>message.f\<close> on a value that is neither \<open>null\<close> nor \<open>undefined\<close>: the own property, or
  \<open>undefined\<close>. (The server reads only \<open>type\<close>, \<open>id\<close>, \<open>token\<close>, \<open>value\<close>, \<open>url\<close> and
  \<open>operation\<close>, none of which a prototype provides.)\<close>

fun get_field :: "json \<Rightarrow> string \<Rightarrow> json" where
  "get_field (JObj kvs) f = (case map_of kvs f of Some v \<Rightarrow> v | None \<Rightarrow> JUndefined)"
| "get_field v f = JUndefined"

definition nullish :: "json \<Rightarrow> bool" where
  "nullish v = (v = JNull \<or> v = JUndefined)"

fun primitive :: "json \<Rightarrow> bool" where
  "primitive (JArr xs) = False"
| "primitive (JObj kvs) = False"
| "primitive v = True"

text \<open>\<open>a === b\<close>: primitives compare by content, objects by identity; an object fresh from
  \<open>JSON.parse\<close> is identical to nothing else.\<close>

definition strict_equals :: "json \<Rightarrow> json \<Rightarrow> bool" where
  "strict_equals a b = (primitive a \<and> a = b)"

text \<open>The members of aurumjs's \<open>RemoteProtocol\<close> enum that the server names
  (\<open>LISTEN_DATASOURCE_OK\<close> only in the earlier revision of the server).\<close>

datatype RemoteProtocol =
    HEARTBEAT
  | LISTEN_DATASOURCE
  | LISTEN_DATASOURCE_OK
  | LISTEN_DATASOURCE_ERR
  | UPDATE_DATASOURCE
  | LISTEN_DUPLEX_DATASOURCE
  | LISTEN_DUPLEX_DATASOURCE_ERR
  | UPDATE_DUPLEX_DATASOURCE
  | UPDATE_DUPLEX_DATASOURCE_ERR
  | LISTEN_ARRAY_DATASOURCE
  | LISTEN_ARRAY_DATASOURCE_ERR
  | UPDATE_ARRAY_DATASOURCE

datatype operation = OpRead | OpWrite

text \<open>What the code calls but does not define: \<open>JSON.parse\<close> (\<open>None\<close> when it throws), the
  numeric values of the \<open>RemoteProtocol\<close> members, and the change events an
  \<open>ArrayDataSource\<close> replays to a new \<open>listenAndRepeat\<close> subscriber from its current data.\<close>

record runtime =
  JSON_parse :: "string \<Rightarrow> json option"
  protocol_tag :: "RemoteProtocol \<Rightarrow> json"
  array_replay :: "json \<Rightarrow> json list"

text \<open>\<open>ws.Data\<close>: a text frame or binary data.\<close>

datatype ws_data = Text string | Binary "nat list"

section \<open>Server state\<close>

text \<open>Everything the outside can observe, in the order it happens: a frame written to a
  client's socket (\<open>Client.sendMessage\<close> serialises \<open>{type, ...payload}\<close>), a value pushed
  upstream into a duplex source, a hook of the embedding application being called, a line
  on the console.\<close>

datatype effect =
    Send nat RemoteProtocol "(string \<times> json) list"
  | UpdateUpstream nat json
  | ClientConnected nat nat
  | ClientDisconnected nat nat
  | ErrorObserved nat nat nat int
  | ConsoleError string
  | ConsoleErrorFault fault

text \<open>The closures handed to the sources: each captures the sender and the id of the
  request that created it.\<close>

datatype callback =
    ScalarCallback nat json
  | DuplexCallback nat json
  | ArrayCallback nat json
  | LegacyArrayCallback nat json

fun callback_client :: "callback \<Rightarrow> nat" where
  "callback_client (ScalarCallback c i) = c"
| "callback_client (DuplexCallback c i) = c"
| "callback_client (ArrayCallback c i) = c"
| "callback_client (LegacyArrayCallback c i) = c"

record listener =
  l_source :: nat
  l_callback :: callback
  l_token :: nat

text \<open>\<open>class Client\<close>: the subscription map and the time of the last message; the connection
  is the client's identity. A JavaScript \<open>Map\<close> takes any value as a key and keeps its
  entries in insertion order (\<open>set\<close> on a present key replaces the value in place): an
  association list with \<open>AList.update\<close>, \<open>AList.delete\<close> and \<open>map_of\<close>.\<close>

record Client =
  subscriptions :: "(json \<times> nat) list"
  timeSinceLastMessage :: "int option"

record entry =
  source :: nat
  authenticator :: "json \<Rightarrow> operation \<Rightarrow> bool"

record AurumServerConfig =
  reuseServer :: "nat option"
  port :: "int option"
  maxMessageSize :: "int option"
  onClientConnected :: "nat option"
  onClientDisconnected :: "nat option"
  onError :: "nat option"

text \<open>\<open>class AurumServer\<close> with the objects it reaches: \<open>config\<close> is \<open>this.config\<close>,
  \<open>create_config\<close> the argument of \<open>create\<close> that the connection and close handlers
  capture. Clients, sources and cancellation tokens are objects with identity: naturals
  into \<open>client_heap\<close>, \<open>source_current\<close> (a source's \<open>value\<close>, an array source's data),
  \<open>propagateWritesToReadStream\<close> (the option of a duplex source) and \<open>token_cancelled\<close>.
  \<open>listeners\<close> holds the subscriptions of all sources in the order they were made.\<close>

record AurumServer =
  config :: AurumServerConfig
  create_config :: AurumServerConfig
  wsServerClients :: "nat list"
  exposedDataSources :: "string \<rightharpoonup> entry"
  exposedDuplexDataSources :: "string \<rightharpoonup> entry"
  exposedArrayDataSources :: "string \<rightharpoonup> entry"
  client_heap :: "nat \<Rightarrow> Client"
  next_client :: nat
  source_current :: "nat \<Rightarrow> json"
  propagateWritesToReadStream :: "nat \<Rightarrow> bool"
  listeners :: "listener list"
  token_cancelled :: "nat \<Rightarrow> bool"
  next_token :: nat
  effects :: "effect list"

text \<open>\<open>Map.has\<close>/\<open>Map.get\<close> on a registry: its keys are strings (\<open>id: string\<close> in the expose
  methods), the id of a request is whatever the client sent.\<close>

definition registry_get :: "(string \<rightharpoonup> 'a) \<Rightarrow> json \<Rightarrow> 'a option" where
  "registry_get m k = (case k of JStr key \<Rightarrow> m key | _ \<Rightarrow> None)"

definition emit :: "effect \<Rightarrow> AurumServer \<Rightarrow> AurumServer" where
  "emit e s = s\<lparr>effects := effects s @ [e]\<rparr>"

definition sendMessage :: "nat \<Rightarrow> RemoteProtocol \<Rightarrow> (string \<times> json) list \<Rightarrow> AurumServer \<Rightarrow> AurumServer" where
  "sendMessage client messageType payload s = emit (Send client messageType payload) s"

text \<open>The frames written to one client, oldest first.\<close>

fun sent_to :: "nat \<Rightarrow> effect list \<Rightarrow> (RemoteProtocol \<times> (string \<times> json) list) list" where
  "sent_to c [] = []"
| "sent_to c (Send c' t p # es) = (if c' = c then (t, p) # sent_to c es else sent_to c es)"
| "sent_to c (e # es) = sent_to c es"

definition delivered :: "nat \<Rightarrow> AurumServer \<Rightarrow> (RemoteProtocol \<times> (string \<times> json) list) list" where
  "delivered c s = sent_to c (effects s)"

fun upstream_pushes :: "effect list \<Rightarrow> (nat \<times> json) list" where
  "upstream_pushes [] = []"
| "upstream_pushes (UpdateUpstream a v # es) = (a, v) # upstream_pushes es"
| "upstream_pushes (e # es) = upstream_pushes es"

definition set_subscription :: "nat \<Rightarrow> json \<Rightarrow> nat \<Rightarrow> AurumServer \<Rightarrow> AurumServer" where
  "set_subscription client i token s =
     s\<lparr>client_heap := (client_heap s)
         (client := (client_heap s client)
            \<lparr>subscriptions := AList.update i token (subscriptions (client_heap s client))\<rparr>)\<rparr>"

definition delete_subscription :: "nat \<Rightarrow> json \<Rightarrow> AurumServer \<Rightarrow> AurumServer" where
  "delete_subscription client i s =
     s\<lparr>client_heap := (client_heap s)
         (client := (client_heap s client)
            \<lparr>subscriptions := AList.delete i (subscriptions (client_heap s client))\<rparr>)\<rparr>"

definition set_timeSinceLastMessage :: "nat \<Rightarrow> int \<Rightarrow> AurumServer \<Rightarrow> AurumServer" where
  "set_timeSinceLastMessage client now s =
     s\<lparr>client_heap := (client_heap s)(client := (client_heap s client)\<lparr>timeSinceLastMessage := Some now\<rparr>)\<rparr>"

section \<open>The reactive sources (aurumjs), as the server uses them\<close>

text \<open>
  \<open>DataSource\<close>, \<open>DuplexDataSource\<close>, \<open>ArrayDataSource\<close> and \<open>CancellationToken\<close> belong to
  the aurumjs library. The server only calls them; they are rendered here by their
  contract: a source holds a current value and a list of listeners, a listener is called
  with every event of its source for as long as its token is not cancelled, and
  \<open>listenAndRepeat\<close> first replays the current state to the new listener. A source always
  has a current value here (\<open>undefined\<close> when none was set).
\<close>

text \<open>\<open>new CancellationToken()\<close>: a fresh token, not cancelled.\<close>

definition new_CancellationToken :: "AurumServer \<Rightarrow> nat \<times> AurumServer" where
  "new_CancellationToken s =
     (next_token s,
      s\<lparr>next_token := Suc (next_token s), token_cancelled := (token_cancelled s)(next_token s := False)\<rparr>)"

text \<open>\<open>token.cancel()\<close>: idempotent; a listener registered under a cancelled token receives
  nothing any more.\<close>

definition cancel :: "nat \<Rightarrow> AurumServer \<Rightarrow> AurumServer" where
  "cancel token s = s\<lparr>token_cancelled := (token_cancelled s)(token := True)\<rparr>"

text \<open>\<open>Object.assign({}, change)\<close>: the own properties of the change (the sources pass
  objects).\<close>

fun Object_assign :: "json \<Rightarrow> (string \<times> json) list" where
  "Object_assign (JObj kvs) = kvs"
| "Object_assign v = []"

text \<open>The array callback of the current server (src/src/client.ts): a copy of the change
  without \<open>operation\<close>, \<open>previousState\<close> and \<open>newState\<close>.\<close>

definition strip_change :: "(string \<times> json) list \<Rightarrow> (string \<times> json) list" where
  "strip_change change =
     AList.delete ''newState'' (AList.delete ''previousState'' (AList.delete ''operation'' change))"

text \<open>The array callback of the earlier revision (src/unnamed/part_000): the snapshots go
  unless \<open>change.operation\<close> is \<open>"merge"\<close>.\<close>

definition strip_change_legacy :: "(string \<times> json) list \<Rightarrow> (string \<times> json) list" where
  "strip_change_legacy change =
     (if strict_equals (get_field (JObj change) ''operation'') (JStr ''merge'') then change
      else AList.delete ''newState'' (AList.delete ''previousState'' change))"

fun run_callback :: "callback \<Rightarrow> json \<Rightarrow> AurumServer \<Rightarrow> AurumServer" where
  "run_callback (ScalarCallback sender i) v s =
     sendMessage sender UPDATE_DATASOURCE [(''id'', i), (''value'', v)] s"
| "run_callback (DuplexCallback sender i) v s =
     sendMessage sender UPDATE_DUPLEX_DATASOURCE [(''id'', i), (''value'', v)] s"
| "run_callback (ArrayCallback sender i) change s =
     sendMessage sender UPDATE_ARRAY_DATASOURCE
       [(''id'', i), (''change'', JObj (strip_change (Object_assign change)))] s"
| "run_callback (LegacyArrayCallback sender i) change s =
     sendMessage sender UPDATE_DATASOURCE
       [(''id'', i), (''change'', JObj (strip_change_legacy (Object_assign change)))] s"

text \<open>\<open>source.listen(callback, token)\<close>: the callback is called with every later event of
  this source until the token is cancelled.\<close>

definition listen :: "nat \<Rightarrow> callback \<Rightarrow> nat \<Rightarrow> AurumServer \<Rightarrow> AurumServer" where
  "listen src cb token s =
     s\<lparr>listeners := listeners s @ [\<lparr>l_source = src, l_callback = cb, l_token = token\<rparr>]\<rparr>"

text \<open>\<open>source.listenAndRepeat(callback, token)\<close> of a scalar or duplex source: the
  callback is called with the current value, then listens.\<close>

definition listenAndRepeat :: "nat \<Rightarrow> callback \<Rightarrow> nat \<Rightarrow> AurumServer \<Rightarrow> AurumServer" where
  "listenAndRepeat src cb token s = listen src cb token (run_callback cb (source_current s src) s)"

text \<open>\<open>listenAndRepeat\<close> of an array source: the callback is called with the change events
  that describe the current data, then listens.\<close>

definition ArrayDataSource_listenAndRepeat ::
  "runtime \<Rightarrow> nat \<Rightarrow> callback \<Rightarrow> nat \<Rightarrow> AurumServer \<Rightarrow> AurumServer" where
  "ArrayDataSource_listenAndRepeat rt src cb token s =
     listen src cb token (foldl (\<lambda>s' ev. run_callback cb ev s') s (array_replay rt (source_current s src)))"

text \<open>An event of a source reaches its listeners in the order they subscribed, those with
  a cancelled token left out.\<close>

definition fire :: "nat \<Rightarrow> json \<Rightarrow> AurumServer \<Rightarrow> AurumServer" where
  "fire src ev s =
     foldl (\<lambda>s' l. if l_source l = src \<and> \<not> token_cancelled s' (l_token l)
                    then run_callback (l_callback l) ev s' else s')
       s (listeners s)"

text \<open>A mutation by the embedding application: \<open>source.update(v)\<close> on a scalar or duplex
  source; a mutator of an array source, which leaves the data \<open>data\<close> and fires \<open>change\<close>.\<close>

definition DataSource_update :: "nat \<Rightarrow> json \<Rightarrow> AurumServer \<Rightarrow> AurumServer" where
  "DataSource_update src v s = fire src v (s\<lparr>source_current := (source_current s)(src := v)\<rparr>)"

definition ArrayDataSource_mutate :: "nat \<Rightarrow> json \<Rightarrow> json \<Rightarrow> AurumServer \<Rightarrow> AurumServer" where
  "ArrayDataSource_mutate src data change s =
     fire src change (s\<lparr>source_current := (source_current s)(src := data)\<rparr>)"

text \<open>\<open>source.updateUpstream(v)\<close> of a duplex source: the source stores the value, hands it
  to the application's upstream listeners (the push, recorded as an effect) and, when
  \<open>propagateWritesToReadStream\<close> is set, fires its downstream listeners with it, the ones
  \<open>listen\<close> and \<open>listenAndRepeat\<close> attach.\<close>

definition updateUpstream :: "nat \<Rightarrow> json \<Rightarrow> AurumServer \<Rightarrow> AurumServer" where
  "updateUpstream src v s =
     (let s1 = emit (UpdateUpstream src v) (s\<lparr>source_current := (source_current s)(src := v)\<rparr>)
      in if propagateWritesToReadStream s1 src then fire src v s1 else s1)"

section \<open>The server (src/src/client.ts, class AurumServer)\<close>

text \<open>\<open>x || d\<close> on an optional number: \<open>undefined\<close> and \<open>0\<close> are falsy.\<close>

definition or_default :: "int option \<Rightarrow> int \<Rightarrow> int" where
  "or_default x d = (case x of None \<Rightarrow> d | Some v \<Rightarrow> if v = 0 then d else v)"

text \<open>\<open>x ?? d\<close>.\<close>

definition nullish_default :: "int option \<Rightarrow> int \<Rightarrow> int" where
  "nullish_default x d = (case x of None \<Rightarrow> d | Some v \<Rightarrow> v)"

text \<open>The private constructor: the configuration is kept and the three registries start
  empty. No client, listener or token exists yet; a duplex source propagates writes to
  its read stream unless the application says otherwise (the default of aurumjs).\<close>

definition constructor :: "AurumServerConfig \<Rightarrow> AurumServerConfig \<Rightarrow> AurumServer" where
  "constructor cfg captured =
     \<lparr>config = cfg, create_config = captured, wsServerClients = [],
      exposedDataSources = Map.empty, exposedDuplexDataSources = Map.empty,
      exposedArrayDataSources = Map.empty,
      client_heap = (\<lambda>c. \<lparr>subscriptions = [], timeSinceLastMessage = None\<rparr>),
      next_client = 0, source_current = (\<lambda>a. JUndefined),
      propagateWritesToReadStream = (\<lambda>a. True), listeners = [],
      token_cancelled = (\<lambda>t. False), next_token = 0, effects = []\<rparr>"

text \<open>\<open>AurumServer.create(config?)\<close>. The object it passes to the constructor has the keys
  \<open>onClientConnected\<close>, \<open>onClientDisconnected\<close>, \<open>reuseServer\<close>, \<open>maxMessageSize\<close> and \<open>port\<close>
  and no other; \<open>config.onClientConnected\<close> on a missing argument is a \<open>TypeError\<close>. The
  transport (\<open>ws.Server\<close>, which wants a port or a server to reuse) is not part of the
  state.\<close>

definition created_config :: "AurumServerConfig \<Rightarrow> AurumServerConfig" where
  "created_config c =
     \<lparr>reuseServer = reuseServer c,
      port = Some (nullish_default (port c) 8080),
      maxMessageSize = Some (or_default (maxMessageSize c) 1048576),
      onClientConnected = onClientConnected c,
      onClientDisconnected = onClientDisconnected c,
      onError = None\<rparr>"

definition create :: "AurumServerConfig option \<Rightarrow> fault + AurumServer" where
  "create cfg =
     (case cfg of
        None \<Rightarrow> Inl TypeError
      | Some c \<Rightarrow> Inr (constructor (created_config c) c))"

text \<open>\<open>hook?.(client)\<close>.\<close>

definition call_hook :: "(nat \<Rightarrow> nat \<Rightarrow> effect) \<Rightarrow> nat option \<Rightarrow> nat \<Rightarrow> AurumServer \<Rightarrow> AurumServer" where
  "call_hook mk hook client s = (case hook of None \<Rightarrow> s | Some h \<Rightarrow> emit (mk h client) s)"

text \<open>The \<open>"connection"\<close> handler: a new \<open>Client\<close> with an empty subscription map, pushed on
  \<open>wsServerClients\<close>, then the connect hook.\<close>

definition on_connection :: "AurumServer \<Rightarrow> AurumServer" where
  "on_connection s =
     (let client = next_client s;
          s1 = s\<lparr>next_client := Suc client,
                 client_heap := (client_heap s)
                   (client := \<lparr>subscriptions = [], timeSinceLastMessage = None\<rparr>)\<rparr>;
          s2 = s1\<lparr>wsServerClients := wsServerClients s1 @ [client]\<rparr>
      in call_hook ClientConnected (onClientConnected (create_config s2)) client s2)"

text \<open>\<open>xs.splice(xs.indexOf(client), 1)\<close>: the first occurrence goes; \<open>indexOf\<close> is \<open>-1\<close> for
  an absent client and \<open>splice(-1, 1)\<close> removes the last element.\<close>

definition splice_indexOf :: "nat \<Rightarrow> nat list \<Rightarrow> nat list" where
  "splice_indexOf client xs = (if client \<in> set xs then remove1 client xs else butlast xs)"

definition forget_client :: "nat \<Rightarrow> AurumServer \<Rightarrow> AurumServer" where
  "forget_client client s = s\<lparr>wsServerClients := splice_indexOf client (wsServerClients s)\<rparr>"

text \<open>Modelled from the spec: \<open>Client.dispose\<close>, which the close handler calls and no
  revision of \<open>class Client\<close> under src/ declares. The spec (4.2): on close, for every entry
  in \<open>subscriptions\<close>, cancel the handle (idempotent), clear the map.\<close>

definition dispose :: "nat \<Rightarrow> AurumServer \<Rightarrow> AurumServer" where
  "dispose client s =
     s\<lparr>token_cancelled :=
         (\<lambda>t. token_cancelled s t \<or> t \<in> snd ` set (subscriptions (client_heap s client))),
       client_heap := (client_heap s)(client := (client_heap s client)\<lparr>subscriptions := []\<rparr>)\<rparr>"

text \<open>The \<open>"close"\<close> handler, statement by statement: the state after the \<open>splice\<close>, after
  \<open>client.dispose()\<close> and after the disconnect hook, in this order. The handler leaves the
  last of them.\<close>

definition close_steps :: "nat \<Rightarrow> AurumServer \<Rightarrow> AurumServer list" where
  "close_steps client s =
     (let s1 = forget_client client s;
          s2 = dispose client s1;
          s3 = call_hook ClientDisconnected (onClientDisconnected (create_config s2)) client s2
      in [s1, s2, s3])"

definition on_close :: "nat \<Rightarrow> AurumServer \<Rightarrow> AurumServer" where
  "on_close client s = last (close_steps client s)"

definition listenDataSource :: "json \<Rightarrow> nat \<Rightarrow> AurumServer \<Rightarrow> AurumServer" where
  "listenDataSource message sender s =
     (let i = get_field message ''id'' in
      case registry_get (exposedDataSources s) i of
        Some endpoint \<Rightarrow>
          (let (token, s1) = new_CancellationToken s;
               s2 = set_subscription sender i token s1
           in if authenticator endpoint (get_field message ''token'') OpRead
              then listenAndRepeat (source endpoint) (ScalarCallback sender i) token s2
              else sendMessage sender LISTEN_DATASOURCE_ERR
                     [(''id'', i), (''errorCode'', JNum 401), (''error'', JStr ''Unauthorized'')] s2)
      | None \<Rightarrow>
          sendMessage sender LISTEN_DATASOURCE_ERR
            [(''id'', i), (''errorCode'', JNum 404), (''error'', JStr ''No such datasource'')] s)"

definition listenArrayDataSource :: "runtime \<Rightarrow> json \<Rightarrow> nat \<Rightarrow> AurumServer \<Rightarrow> AurumServer" where
  "listenArrayDataSource rt message sender s =
     (let i = get_field message ''id'' in
      case registry_get (exposedArrayDataSources s) i of
        Some endpoint \<Rightarrow>
          (let (token, s1) = new_CancellationToken s;
               s2 = set_subscription sender i token s1
           in if authenticator endpoint (get_field message ''token'') OpRead
              then ArrayDataSource_listenAndRepeat rt (source endpoint) (ArrayCallback sender i) token s2
              else sendMessage sender LISTEN_ARRAY_DATASOURCE_ERR
                     [(''id'', i), (''errorCode'', JNum 401), (''error'', JStr ''Unauthorized'')] s2)
      | None \<Rightarrow>
          sendMessage sender LISTEN_ARRAY_DATASOURCE_ERR
            [(''id'', i), (''errorCode'', JNum 404), (''error'', JStr ''No such array datasource'')] s)"

definition listenDuplexDataSource :: "json \<Rightarrow> nat \<Rightarrow> AurumServer \<Rightarrow> AurumServer" where
  "listenDuplexDataSource message sender s =
     (let i = get_field message ''id'' in
      case registry_get (exposedDuplexDataSources s) i of
        Some endpoint \<Rightarrow>
          (let (token, s1) = new_CancellationToken s;
               s2 = set_subscription sender i token s1
           in if authenticator endpoint (get_field message ''token'') OpRead
              then listenAndRepeat (source endpoint) (DuplexCallback sender i) token s2
              else sendMessage sender LISTEN_DUPLEX_DATASOURCE_ERR
                     [(''id'', i), (''errorCode'', JNum 401), (''error'', JStr ''Unauthorized'')] s2)
      | None \<Rightarrow>
          sendMessage sender LISTEN_DUPLEX_DATASOURCE_ERR
            [(''id'', i), (''errorCode'', JNum 404), (''error'', JStr ''No such duplex datasource'')] s)"

definition updateDuplexDataSource :: "json \<Rightarrow> nat \<Rightarrow> AurumServer \<Rightarrow> AurumServer" where
  "updateDuplexDataSource message sender s =
     (let i = get_field message ''id'' in
      case registry_get (exposedDuplexDataSources s) i of
        Some endpoint \<Rightarrow>
          if authenticator endpoint (get_field message ''token'') OpWrite
          then updateUpstream (source endpoint) (get_field message ''value'') s
          else sendMessage sender UPDATE_DUPLEX_DATASOURCE_ERR
                 [(''id'', i), (''errorCode'', JNum 401), (''error'', JStr ''Unauthorized'')] s
      | None \<Rightarrow>
          sendMessage sender UPDATE_DUPLEX_DATASOURCE_ERR
            [(''id'', i), (''errorCode'', JNum 404), (''error'', JStr ''No such duplex datasource'')] s)"

text \<open>\<open>cancelSubscriptionToExposedSource\<close> (private and called from nowhere): the handle
  under \<open>message.url\<close> is cancelled and its entry deleted.\<close>

definition cancelSubscriptionToExposedSource :: "nat \<Rightarrow> json \<Rightarrow> AurumServer \<Rightarrow> AurumServer" where
  "cancelSubscriptionToExposedSource sender message s =
     (case map_of (subscriptions (client_heap s sender)) (get_field message ''url'') of
        Some sub \<Rightarrow> delete_subscription sender (get_field message ''url'') (cancel sub s)
      | None \<Rightarrow> s)"

text \<open>The \<open>catch\<close> of \<open>processMessage\<close>: two lines on the console, nothing else.\<close>

definition catch_log :: "fault \<Rightarrow> AurumServer \<Rightarrow> AurumServer" where
  "catch_log e s = emit (ConsoleErrorFault e) (emit (ConsoleError ''Failed to parse message'') s)"

text \<open>\<open>data.length >= this.config.maxMessageSize\<close>; a comparison with \<open>undefined\<close> is false.\<close>

definition too_long :: "string \<Rightarrow> int option \<Rightarrow> bool" where
  "too_long str limit = (case limit of None \<Rightarrow> False | Some m \<Rightarrow> int (length str) \<ge> m)"

text \<open>\<open>processMessage(sender, data)\<close>; \<open>now\<close> is what \<open>Date.now()\<close> returns. The error
  observer would be told \<open>Received message with size ${data.length} max allowed is
  ${this.config.maxMessageSize}\<close>.\<close>

definition processMessage :: "runtime \<Rightarrow> int \<Rightarrow> nat \<Rightarrow> ws_data \<Rightarrow> AurumServer \<Rightarrow> AurumServer" where
  "processMessage rt now sender data s =
     (case data of
        Binary bytes \<Rightarrow> s
      | Text str \<Rightarrow>
          if too_long str (maxMessageSize (config s))
          then (case onError (config s) of
                  None \<Rightarrow> s
                | Some h \<Rightarrow>
                    emit (ErrorObserved h sender (length str)
                            (nullish_default (maxMessageSize (config s)) 0)) s)
          else
            (case JSON_parse rt str of
               None \<Rightarrow> catch_log SyntaxError s
             | Some message \<Rightarrow>
                 if nullish message then catch_log TypeError s
                 else
                   (let ty = get_field message ''type'';
                        s1 = set_timeSinceLastMessage sender now s
                    in if strict_equals ty (protocol_tag rt LISTEN_DATASOURCE)
                       then listenDataSource message sender s1
                       else if strict_equals ty (protocol_tag rt LISTEN_DUPLEX_DATASOURCE)
                       then listenDuplexDataSource message sender s1
                       else if strict_equals ty (protocol_tag rt LISTEN_ARRAY_DATASOURCE)
                       then listenArrayDataSource rt message sender s1
                       else if strict_equals ty (protocol_tag rt UPDATE_DUPLEX_DATASOURCE)
                       then updateDuplexDataSource message sender s1
                       else if strict_equals ty (protocol_tag rt HEARTBEAT)
                       then s1
                       else s1)))"

text \<open>The expose methods: an omitted authenticator defaults to \<open>() => true\<close>.\<close>

definition allow_all :: "json \<Rightarrow> operation \<Rightarrow> bool" where
  "allow_all token operation = True"

definition default_authenticator :: "(json \<Rightarrow> operation \<Rightarrow> bool) option \<Rightarrow> json \<Rightarrow> operation \<Rightarrow> bool" where
  "default_authenticator authenticate = (case authenticate of None \<Rightarrow> allow_all | Some a \<Rightarrow> a)"

definition exposeDataSource ::
  "string \<Rightarrow> nat \<Rightarrow> (json \<Rightarrow> operation \<Rightarrow> bool) option \<Rightarrow> AurumServer \<Rightarrow> AurumServer" where
  "exposeDataSource i src authenticate s =
     s\<lparr>exposedDataSources := (exposedDataSources s)
         (i \<mapsto> \<lparr>source = src, authenticator = default_authenticator authenticate\<rparr>)\<rparr>"

definition exposeArrayDataSource ::
  "string \<Rightarrow> nat \<Rightarrow> (json \<Rightarrow> operation \<Rightarrow> bool) option \<Rightarrow> AurumServer \<Rightarrow> AurumServer" where
  "exposeArrayDataSource i src authenticate s =
     s\<lparr>exposedArrayDataSources := (exposedArrayDataSources s)
         (i \<mapsto> \<lparr>source = src, authenticator = default_authenticator authenticate\<rparr>)\<rparr>"

definition exposeDuplexDataSource ::
  "string \<Rightarrow> nat \<Rightarrow> (json \<Rightarrow> operation \<Rightarrow> bool) option \<Rightarrow> AurumServer \<Rightarrow> AurumServer" where
  "exposeDuplexDataSource i src authenticate s =
     s\<lparr>exposedDuplexDataSources := (exposedDuplexDataSources s)
         (i \<mapsto> \<lparr>source = src, authenticator = default_authenticator authenticate\<rparr>)\<rparr>"

section \<open>The earlier revision of the server (src/unnamed/part_000)\<close>

text \<open>\<open>listenDataSource\<close>: no authenticator is asked; the listener is attached with
  \<open>listen\<close>, then \<open>LISTEN_DATASOURCE_OK\<close> carries the current value; an unknown id is
  answered with \<open>errorCode: 0\<close>.\<close>

definition listenDataSource_legacy :: "json \<Rightarrow> nat \<Rightarrow> AurumServer \<Rightarrow> AurumServer" where
  "listenDataSource_legacy message sender s =
     (let i = get_field message ''id'' in
      case registry_get (exposedDataSources s) i of
        Some endpoint \<Rightarrow>
          (let (token, s1) = new_CancellationToken s;
               s2 = set_subscription sender i token s1;
               s3 = listen (source endpoint) (ScalarCallback sender i) token s2
           in sendMessage sender LISTEN_DATASOURCE_OK
                [(''id'', i), (''value'', source_current s3 (source endpoint))] s3)
      | None \<Rightarrow>
          sendMessage sender LISTEN_DATASOURCE_ERR
            [(''id'', i), (''errorCode'', JNum 0), (''error'', JStr ''No such datasource'')] s)"

text \<open>\<open>listenArrayDataSource(id, sender)\<close> (private and called from nowhere): there is no
  \<open>has\<close> check, so an unknown id faults at \<open>endpoint.source\<close>, after the token was stored.\<close>

definition listenArrayDataSource_legacy :: "json \<Rightarrow> nat \<Rightarrow> AurumServer \<Rightarrow> fault option \<times> AurumServer" where
  "listenArrayDataSource_legacy i sender s =
     (let (token, s1) = new_CancellationToken s;
          s2 = set_subscription sender i token s1
      in case registry_get (exposedArrayDataSources s) i of
           None \<Rightarrow> (Some TypeError, s2)
         | Some endpoint \<Rightarrow>
             (let s3 = listen (source endpoint) (LegacyArrayCallback sender i) token s2
              in (None, sendMessage sender LISTEN_DATASOURCE_OK
                          [(''id'', i), (''value'', source_current s3 (source endpoint))] s3)))"

section \<open>The router (src/src/router.ts)\<close>

text \<open>\<open>interface Endpoint\<close> declares \<open>authenticator\<close> as a method; what the expose methods
  store can be \<open>undefined\<close> (\<open>None\<close>).\<close>

record Endpoint =
  endpoint_source :: nat
  endpoint_authenticator :: "(json \<Rightarrow> operation \<Rightarrow> bool) option"

record Router =
  router_exposedDataSources :: "string \<rightharpoonup> Endpoint"
  router_exposedDuplexDataSources :: "string \<rightharpoonup> Endpoint"
  router_exposedArrayDataSources :: "string \<rightharpoonup> Endpoint"

definition Router_constructor :: Router where
  "Router_constructor =
     \<lparr>router_exposedDataSources = Map.empty, router_exposedDuplexDataSources = Map.empty,
      router_exposedArrayDataSources = Map.empty\<rparr>"

definition getExposedDataSource :: "Router \<Rightarrow> string \<Rightarrow> Endpoint option" where
  "getExposedDataSource r i = router_exposedDataSources r i"

definition getExposedArrayDataSource :: "Router \<Rightarrow> string \<Rightarrow> Endpoint option" where
  "getExposedArrayDataSource r i = router_exposedArrayDataSources r i"

definition getExposedDuplexDataSource :: "Router \<Rightarrow> string \<Rightarrow> Endpoint option" where
  "getExposedDuplexDataSource r i = router_exposedDuplexDataSources r i"

text \<open>\<open>Router.exposeDataSource\<close> has the default \<open>() => true\<close>; \<open>exposeArrayDataSource\<close> and
  \<open>exposeDuplexDataSource\<close> declare \<open>authenticate?\<close> and store the argument as it comes.\<close>

definition Router_exposeDataSource ::
  "string \<Rightarrow> nat \<Rightarrow> (json \<Rightarrow> operation \<Rightarrow> bool) option \<Rightarrow> Router \<Rightarrow> Router" where
  "Router_exposeDataSource i src authenticate r =
     r\<lparr>router_exposedDataSources := (router_exposedDataSources r)
         (i \<mapsto> \<lparr>endpoint_source = src,
                endpoint_authenticator = Some (default_authenticator authenticate)\<rparr>)\<rparr>"

definition Router_exposeArrayDataSource ::
  "string \<Rightarrow> nat \<Rightarrow> (json \<Rightarrow> operation \<Rightarrow> bool) option \<Rightarrow> Router \<Rightarrow> Router" where
  "Router_exposeArrayDataSource i src authenticate r =
     r\<lparr>router_exposedArrayDataSources := (router_exposedArrayDataSources r)
         (i \<mapsto> \<lparr>endpoint_source = src, endpoint_authenticator = authenticate\<rparr>)\<rparr>"

definition Router_exposeDuplexDataSource ::
  "string \<Rightarrow> nat \<Rightarrow> (json \<Rightarrow> operation \<Rightarrow> bool) option \<Rightarrow> Router \<Rightarrow> Router" where
  "Router_exposeDuplexDataSource i src authenticate r =
     r\<lparr>router_exposedDuplexDataSources := (router_exposedDuplexDataSources r)
         (i \<mapsto> \<lparr>endpoint_source = src, endpoint_authenticator = authenticate\<rparr>)\<rparr>"

text \<open>\<open>endpoint.authenticator(token, operation)\<close>, the call the server's handlers make on an
  entry: calling \<open>undefined\<close> is a \<open>TypeError\<close>.\<close>

definition call_authenticator :: "Endpoint \<Rightarrow> json \<Rightarrow> operation \<Rightarrow> fault + bool" where
  "call_authenticator endpoint token operation =
     (case endpoint_authenticator endpoint of
        None \<Rightarrow> Inl TypeError
      | Some a \<Rightarrow> Inr (a token operation))"

section \<open>Example inputs\<close>

text \<open>A runtime for the examples: a parser that knows four frames, distinct numbers for the
  protocol members (the real ones are aurumjs's), and an array source that replays its
  data as one append.\<close>

fun example_tag :: "RemoteProtocol \<Rightarrow> json" where
  "example_tag HEARTBEAT = JNum 0"
| "example_tag LISTEN_DATASOURCE = JNum 1"
| "example_tag LISTEN_DATASOURCE_OK = JNum 2"
| "example_tag LISTEN_DATASOURCE_ERR = JNum 3"
| "example_tag UPDATE_DATASOURCE = JNum 4"
| "example_tag LISTEN_DUPLEX_DATASOURCE = JNum 5"
| "example_tag LISTEN_DUPLEX_DATASOURCE_ERR = JNum 6"
| "example_tag UPDATE_DUPLEX_DATASOURCE = JNum 7"
| "example_tag UPDATE_DUPLEX_DATASOURCE_ERR = JNum 8"
| "example_tag LISTEN_ARRAY_DATASOURCE = JNum 9"
| "example_tag LISTEN_ARRAY_DATASOURCE_ERR = JNum 10"
| "example_tag UPDATE_ARRAY_DATASOURCE = JNum 11"

definition example_parse :: "string \<Rightarrow> json option" where
  "example_parse str =
     (if str = ''null'' then Some JNull
      else if str = ''7'' then Some (JNum 7)
      else if str = ''[]'' then Some (JArr [])
      else if str = ''{}'' then Some (JObj [])
      else None)"

definition example_runtime :: runtime where
  "example_runtime =
     \<lparr>JSON_parse = example_parse, protocol_tag = example_tag,
      array_replay = (\<lambda>data. [JObj [(''operationDetailed'', JStr ''append''), (''items'', data)]])\<rparr>"

definition example_config :: AurumServerConfig where
  "example_config =
     \<lparr>reuseServer = None, port = Some 8080, maxMessageSize = None, onClientConnected = None,
      onClientDisconnected = None, onError = None\<rparr>"

definition deny_all :: "json \<Rightarrow> operation \<Rightarrow> bool" where
  "deny_all token operation = False"

definition admin_only :: "json \<Rightarrow> operation \<Rightarrow> bool" where
  "admin_only token operation = (token = JStr ''admin'')"

text \<open>A server as \<open>create\<close> builds it, with a scalar source \<open>temperature\<close> (object 0, value
  20, default authenticator), a scalar source \<open>secret\<close> (object 1) that nobody may read, a
  duplex source \<open>door\<close> (object 2) for the token \<open>admin\<close>, an array source \<open>items\<close>
  (object 3, data 1, 2, 3, default authenticator), an array source \<open>vault\<close> (object 4) that nobody may
  read, and one connected client (client 0).\<close>

definition example_server :: AurumServer where
  "example_server =
     on_connection
       (exposeArrayDataSource ''vault'' 4 (Some deny_all)
         (exposeArrayDataSource ''items'' 3 None
           (exposeDuplexDataSource ''door'' 2 (Some admin_only)
             (exposeDataSource ''secret'' 1 (Some deny_all)
               (exposeDataSource ''temperature'' 0 None
                 (ArrayDataSource_mutate 3 (JArr [JNum 1, JNum 2, JNum 3]) (JObj [])
                   (DataSource_update 0 (JNum 20)
                     (constructor (created_config example_config) example_config))))))))"

definition request :: "string \<Rightarrow> string \<Rightarrow> json" where
  "request i token = JObj [(''id'', JStr i), (''token'', JStr token)]"

definition write_request :: "string \<Rightarrow> string \<Rightarrow> json \<Rightarrow> json" where
  "write_request i token v = JObj [(''id'', JStr i), (''token'', JStr token), (''value'', v)]"

text \<open>Client 0 after one subscribe request for \<open>temperature\<close>, and after two.\<close>

definition subscribed_once :: AurumServer where
  "subscribed_once = listenDataSource (request ''temperature'' ''t'') 0 example_server"

definition subscribed_twice :: AurumServer where
  "subscribed_twice = listenDataSource (request ''temperature'' ''t'') 0 subscribed_once"

text \<open>The door closed, and client 0 subscribed to it with the token \<open>admin\<close>.\<close>

definition door_subscribed :: AurumServer where
  "door_subscribed =
     listenDuplexDataSource (request ''door'' ''admin'') 0
       (DataSource_update 2 (JStr ''closed'') example_server)"

text \<open>A server with a connect hook (hook 7) and a disconnect hook (hook 8), the scalar
  source \<open>temperature\<close>, and client 0 subscribed to it.\<close>

definition hooked_config :: AurumServerConfig where
  "hooked_config = example_config\<lparr>onClientConnected := Some 7, onClientDisconnected := Some 8\<rparr>"

definition hooked_once :: AurumServer where
  "hooked_once =
     listenDataSource (request ''temperature'' ''t'') 0
       (on_connection
         (exposeDataSource ''temperature'' 0 None
           (DataSource_update 0 (JNum 20)
             (constructor (created_config hooked_config) hooked_config))))"

text \<open>A merge event of an array source, with both snapshots.\<close>

definition example_merge :: json where
  "example_merge =
     JObj [(''operation'', JStr ''merge''), (''operationDetailed'', JStr ''merge''),
           (''index'', JNum 0), (''items'', JArr [JNum 1, JNum 3]),
           (''previousState'', JArr [JNum 1, JNum 2, JNum 3]),
           (''newState'', JArr [JNum 1, JNum 3])]"

text \<open>A configuration with a frame limit of two characters and an error observer (hook 9).\<close>

definition small_config :: AurumServerConfig where
  "small_config = example_config\<lparr>maxMessageSize := Some 2, onError := Some 9\<rparr>"

definition small_created :: AurumServer where
  "small_created = constructor (created_config small_config) small_config"

definition small_server :: AurumServer where
  "small_server = on_connection small_created"

section \<open>Views of the state used in the statements\<close>

text \<open>The frame a callback writes for an event, and the frames one event of a source
  produces: one per listener of that source whose token is not cancelled, in
  subscription order.\<close>

fun callback_message :: "callback \<Rightarrow> json \<Rightarrow> RemoteProtocol \<times> (string \<times> json) list" where
  "callback_message (ScalarCallback sender i) v = (UPDATE_DATASOURCE, [(''id'', i), (''value'', v)])"
| "callback_message (DuplexCallback sender i) v =
     (UPDATE_DUPLEX_DATASOURCE, [(''id'', i), (''value'', v)])"
| "callback_message (ArrayCallback sender i) change =
     (UPDATE_ARRAY_DATASOURCE, [(''id'', i), (''change'', JObj (strip_change (Object_assign change)))])"
| "callback_message (LegacyArrayCallback sender i) change =
     (UPDATE_DATASOURCE, [(''id'', i), (''change'', JObj (strip_change_legacy (Object_assign change)))])"

definition callback_frame :: "callback \<Rightarrow> json \<Rightarrow> effect" where
  "callback_frame cb ev =
     Send (callback_client cb) (fst (callback_message cb ev)) (snd (callback_message cb ev))"

fun frames_of :: "(nat \<Rightarrow> bool) \<Rightarrow> nat \<Rightarrow> json \<Rightarrow> listener list \<Rightarrow> effect list" where
  "frames_of cancelled src ev [] = []"
| "frames_of cancelled src ev (l # ls) =
     (if l_source l = src \<and> \<not> cancelled (l_token l)
      then callback_frame (l_callback l) ev # frames_of cancelled src ev ls
      else frames_of cancelled src ev ls)"

text \<open>Mutations of the sources by the embedding application, in sequence.\<close>

datatype mutation = Update nat json | ArrayMutation nat json json

fun mutate :: "mutation \<Rightarrow> AurumServer \<Rightarrow> AurumServer" where
  "mutate (Update src v) s = DataSource_update src v s"
| "mutate (ArrayMutation src data change) s = ArrayDataSource_mutate src data change s"

definition mutations :: "mutation list \<Rightarrow> AurumServer \<Rightarrow> AurumServer" where
  "mutations ms s = foldl (\<lambda>s' m. mutate m s') s ms"

fun mutation_frames :: "(nat \<Rightarrow> bool) \<Rightarrow> listener list \<Rightarrow> mutation \<Rightarrow> effect list" where
  "mutation_frames cancelled ls (Update src v) = frames_of cancelled src v ls"
| "mutation_frames cancelled ls (ArrayMutation src data change) = frames_of cancelled src change ls"

text \<open>No listener of the client is left without its handle in the client's subscription
  map.\<close>

definition handles_registered :: "nat \<Rightarrow> AurumServer \<Rightarrow> bool" where
  "handles_registered client s =
     list_all (\<lambda>l. callback_client (l_callback l) = client \<longrightarrow>
                    l_token l \<in> snd ` set (subscriptions (client_heap s client)))
       (listeners s)"

text \<open>The client has no listener on the source yet.\<close>

definition not_listening :: "nat \<Rightarrow> nat \<Rightarrow> AurumServer \<Rightarrow> bool" where
  "not_listening client src s =
     list_all (\<lambda>l. \<not> (l_source l = src \<and> callback_client (l_callback l) = client)) (listeners s)"

section \<open>Basic facts\<close>

subsection \<open>Frames and effects\<close>

lemma sent_to_append: "sent_to c (xs @ ys) = sent_to c xs @ sent_to c ys"
  by (induction c xs rule: sent_to.induct) auto

lemma upstream_pushes_append: "upstream_pushes (xs @ ys) = upstream_pushes xs @ upstream_pushes ys"
  by (induction xs rule: upstream_pushes.induct) auto

lemma sent_to_concat: "sent_to c (concat xss) = concat (map (sent_to c) xss)"
  by (induction xss) (simp_all add: sent_to_append)

lemma concat_map_single: "concat (map (\<lambda>x. [f x]) xs) = map f xs"
  by (induction xs) simp_all

lemma run_callback_emit: "run_callback cb ev s = emit (callback_frame cb ev) s"
  by (cases cb) (simp_all add: callback_frame_def sendMessage_def)

lemma fold_frames:
  "foldl (\<lambda>s' l. if l_source l = src \<and> \<not> token_cancelled s' (l_token l)
                    then run_callback (l_callback l) ev s' else s') s ls
   = s\<lparr>effects := effects s @ frames_of (token_cancelled s) src ev ls\<rparr>"
proof (induction ls arbitrary: s)
  case Nil
  show ?case by simp
next
  case (Cons l ls)
  show ?case
    by (simp add: Cons.IH run_callback_emit emit_def)
qed

lemma fire_frames:
  "fire src ev s = s\<lparr>effects := effects s @ frames_of (token_cancelled s) src ev (listeners s)\<rparr>"
  by (simp add: fire_def fold_frames)

lemma frames_of_append:
  "frames_of canc src ev (xs @ ys) = frames_of canc src ev xs @ frames_of canc src ev ys"
  by (induction xs) auto

lemma replay_frames_unfolded:
  "foldl (\<lambda>s' ev. s'\<lparr>effects := effects s' @ [callback_frame cb ev]\<rparr>) s evs
   = s\<lparr>effects := effects s @ map (callback_frame cb) evs\<rparr>"
  by (induction evs arbitrary: s) simp_all

lemmas handler_defs = listenDataSource_def listenArrayDataSource_def listenDuplexDataSource_def
  updateDuplexDataSource_def listenDataSource_legacy_def new_CancellationToken_def
  set_subscription_def sendMessage_def emit_def listenAndRepeat_def
  ArrayDataSource_listenAndRepeat_def listen_def updateUpstream_def run_callback_emit
  replay_frames_unfolded fire_frames

subsection \<open>Mutations of the sources\<close>

lemma mutate_frames:
  "listeners (mutate m s) = listeners s"
  "token_cancelled (mutate m s) = token_cancelled s"
  "client_heap (mutate m s) = client_heap s"
  "effects (mutate m s) = effects s @ mutation_frames (token_cancelled s) (listeners s) m"
  by (cases m, simp_all add: DataSource_update_def ArrayDataSource_mutate_def fire_frames)+

lemma mutations_frames:
  "listeners (mutations ms s) = listeners s \<and>
   token_cancelled (mutations ms s) = token_cancelled s \<and>
   client_heap (mutations ms s) = client_heap s \<and>
   effects (mutations ms s) =
     effects s @ concat (map (mutation_frames (token_cancelled s) (listeners s)) ms)"
proof (induction ms arbitrary: s)
  case Nil
  show ?case by (simp add: mutations_def)
next
  case (Cons m ms)
  have step: "mutations (m # ms) s = mutations ms (mutate m s)"
    by (simp add: mutations_def)
  show ?case
    unfolding step using Cons.IH [of "mutate m s"] by (simp add: mutate_frames)
qed

lemma delivered_mutations:
  "delivered c (mutations ms s) =
     delivered c s @ concat (map (\<lambda>m. sent_to c (mutation_frames (token_cancelled s) (listeners s) m)) ms)"
  by (simp add: delivered_def mutations_frames sent_to_append sent_to_concat comp_def)

text \<open>Listeners of a client that are all cancelled produce nothing for it.\<close>

lemma sent_to_frames_silent:
  assumes "list_all (\<lambda>l. callback_client (l_callback l) = c \<longrightarrow> canc (l_token l)) ls"
  shows "sent_to c (frames_of canc src ev ls) = []"
  using assms by (induction ls) (auto simp: callback_frame_def)

lemma sent_to_frames_other:
  assumes "list_all (\<lambda>l. \<not> (l_source l = src \<and> callback_client (l_callback l) = c)) ls"
  shows "sent_to c (frames_of canc src ev ls) = []"
  using assms by (induction ls) (auto simp: callback_frame_def)

lemma sent_to_frames_new:
  assumes "list_all (\<lambda>l. \<not> (l_source l = src \<and> callback_client (l_callback l) = c)) ls"
      and "\<not> canc token"
  shows "sent_to c (frames_of canc src ev (ls @ [\<lparr>l_source = src, l_callback = ScalarCallback c i, l_token = token\<rparr>]))
         = [(UPDATE_DATASOURCE, [(''id'', i), (''value'', ev)])]"
  using assms by (simp add: frames_of_append sent_to_append sent_to_frames_other callback_frame_def)

lemma delivered_updates:
  assumes ls: "listeners s1 = ls @ [\<lparr>l_source = src, l_callback = ScalarCallback c i, l_token = token\<rparr>]"
      and other: "list_all (\<lambda>l. \<not> (l_source l = src \<and> callback_client (l_callback l) = c)) ls"
      and live: "\<not> token_cancelled s1 token"
  shows "delivered c (mutations (map (Update src) vs) s1)
         = delivered c s1 @ map (\<lambda>v. (UPDATE_DATASOURCE, [(''id'', i), (''value'', v)])) vs"
proof -
  have one: "sent_to c (frames_of (token_cancelled s1) src v
               (ls @ [\<lparr>l_source = src, l_callback = ScalarCallback c i, l_token = token\<rparr>]))
             = [(UPDATE_DATASOURCE, [(''id'', i), (''value'', v)])]" for v
    using other live by (rule sent_to_frames_new)
  show ?thesis
    by (simp add: delivered_mutations comp_def ls one concat_map_single)
qed

subsection \<open>The handlers\<close>

text \<open>A subscription map never holds two handles under one id.\<close>

lemma set_subscription_keys_distinct:
  assumes "distinct (map fst (subscriptions (client_heap s c)))"
  shows "distinct (map fst (subscriptions (client_heap (set_subscription c' i token s) c)))"
  using assms by (cases "c = c'") (simp_all add: set_subscription_def distinct_update)

text \<open>A refused subscribe request: the token is stored, then the error is sent.\<close>

lemma listenDataSource_denied:
  assumes "registry_get (exposedDataSources s) (get_field message ''id'') = Some endpoint"
      and "\<not> authenticator endpoint (get_field message ''token'') OpRead"
  shows "listenDataSource message sender s =
           sendMessage sender LISTEN_DATASOURCE_ERR
             [(''id'', get_field message ''id''), (''errorCode'', JNum 401),
              (''error'', JStr ''Unauthorized'')]
             (set_subscription sender (get_field message ''id'') (next_token s)
                (snd (new_CancellationToken s)))"
  using assms by (simp add: listenDataSource_def new_CancellationToken_def Let_def)

lemma listenArrayDataSource_denied:
  assumes "registry_get (exposedArrayDataSources s) (get_field message ''id'') = Some endpoint"
      and "\<not> authenticator endpoint (get_field message ''token'') OpRead"
  shows "listenArrayDataSource rt message sender s =
           sendMessage sender LISTEN_ARRAY_DATASOURCE_ERR
             [(''id'', get_field message ''id''), (''errorCode'', JNum 401),
              (''error'', JStr ''Unauthorized'')]
             (set_subscription sender (get_field message ''id'') (next_token s)
                (snd (new_CancellationToken s)))"
  using assms by (simp add: listenArrayDataSource_def new_CancellationToken_def Let_def)

lemma listenDuplexDataSource_denied:
  assumes "registry_get (exposedDuplexDataSources s) (get_field message ''id'') = Some endpoint"
      and "\<not> authenticator endpoint (get_field message ''token'') OpRead"
  shows "listenDuplexDataSource message sender s =
           sendMessage sender LISTEN_DUPLEX_DATASOURCE_ERR
             [(''id'', get_field message ''id''), (''errorCode'', JNum 401),
              (''error'', JStr ''Unauthorized'')]
             (set_subscription sender (get_field message ''id'') (next_token s)
                (snd (new_CancellationToken s)))"
  using assms by (simp add: listenDuplexDataSource_def new_CancellationToken_def Let_def)

lemma handlers_keep_time:
  "timeSinceLastMessage (client_heap (listenDataSource message sender s) c) = timeSinceLastMessage (client_heap s c)"
  "timeSinceLastMessage (client_heap (listenDuplexDataSource message sender s) c) = timeSinceLastMessage (client_heap s c)"
  "timeSinceLastMessage (client_heap (listenArrayDataSource rt message sender s) c) = timeSinceLastMessage (client_heap s c)"
  "timeSinceLastMessage (client_heap (updateDuplexDataSource message sender s) c) = timeSinceLastMessage (client_heap s c)"
  by (simp_all add: handler_defs Let_def split: option.splits)

text \<open>The three expose methods of \<open>AurumServer\<close> do store the allow-all default.\<close>

lemma server_expose_default:
  "exposedDataSources (exposeDataSource i src None s) i = Some \<lparr>source = src, authenticator = allow_all\<rparr>"
  "exposedArrayDataSources (exposeArrayDataSource i src None s) i = Some \<lparr>source = src, authenticator = allow_all\<rparr>"
  "exposedDuplexDataSources (exposeDuplexDataSource i src None s) i = Some \<lparr>source = src, authenticator = allow_all\<rparr>"
  "allow_all token operation"
  by (simp_all add: exposeDataSource_def exposeArrayDataSource_def exposeDuplexDataSource_def
      default_authenticator_def allow_all_def)

lemma create_drops_onError: "create (Some c) = Inr s \<Longrightarrow> onError (config s) = None"
  by (auto simp: create_def constructor_def created_config_def)

lemma frame_at_limit_rejected:
  assumes "maxMessageSize (config s) = Some (int (length str))" and "onError (config s) = None"
  shows "processMessage rt now sender (Text str) s = s"
  using assms by (simp add: processMessage_def too_long_def)

lemma splice_indexOf_forgets:
  assumes "distinct xs"
  shows "c \<notin> set (splice_indexOf c xs)"
proof (cases "c \<in> set xs")
  case True
  with assms show ?thesis by (simp add: splice_indexOf_def)
next
  case False
  then have "c \<notin> set (butlast xs)" by (auto dest: in_set_butlastD)
  with False show ?thesis by (simp add: splice_indexOf_def)
qed

lemma on_close_fields:
  "wsServerClients (on_close c s) = splice_indexOf c (wsServerClients s)"
  "listeners (on_close c s) = listeners s"
  "token_cancelled (on_close c s) t = (token_cancelled s t \<or> t \<in> snd ` set (subscriptions (client_heap s c)))"
  "subscriptions (client_heap (on_close c s) c) = []"
  "delivered c' (on_close c s) = delivered c' s"
  by (simp_all add: on_close_def close_steps_def forget_client_def dispose_def call_hook_def
      emit_def Let_def delivered_def sent_to_append split: option.splits)

lemmas close_defs = on_close_def close_steps_def forget_client_def dispose_def call_hook_def splice_indexOf_def
  mutations_def DataSource_update_def fire_frames callback_frame_def delivered_def example_config_def

subsection \<open>The example servers\<close>

lemmas example_defs = example_server_def exposeArrayDataSource_def exposeDuplexDataSource_def
  exposeDataSource_def on_connection_def DataSource_update_def constructor_def created_config_def
  example_config_def fire_def call_hook_def default_authenticator_def nullish_default_def or_default_def

lemma example_server_eq:
  "example_server =
     \<lparr>config = \<lparr>reuseServer = None, port = Some 8080, maxMessageSize = Some 1048576,
                onClientConnected = None, onClientDisconnected = None, onError = None\<rparr>,
      create_config = example_config,
      wsServerClients = [0],
      exposedDataSources =
        [''temperature'' \<mapsto> \<lparr>source = 0, authenticator = allow_all\<rparr>,
         ''secret'' \<mapsto> \<lparr>source = 1, authenticator = deny_all\<rparr>],
      exposedDuplexDataSources = [''door'' \<mapsto> \<lparr>source = 2, authenticator = admin_only\<rparr>],
      exposedArrayDataSources =
        [''items'' \<mapsto> \<lparr>source = 3, authenticator = allow_all\<rparr>,
         ''vault'' \<mapsto> \<lparr>source = 4, authenticator = deny_all\<rparr>],
      client_heap = (\<lambda>c. \<lparr>subscriptions = [], timeSinceLastMessage = None\<rparr>),
      next_client = 1,
      source_current = (\<lambda>a. JUndefined)(0 := JNum 20, 3 := JArr [JNum 1, JNum 2, JNum 3]),
      propagateWritesToReadStream = (\<lambda>a. True),
      listeners = [],
      token_cancelled = (\<lambda>t. False),
      next_token = 0,
      effects = []\<rparr>"
  by (simp add: example_defs ArrayDataSource_mutate_def fun_eq_iff)

lemma example_nowhere:
  "registry_get (exposedDataSources example_server) (get_field (request ''nowhere'' ''t'') ''id'') = None"
  "registry_get (exposedArrayDataSources example_server) (get_field (request ''nowhere'' ''t'') ''id'') = None"
  "registry_get (exposedDuplexDataSources example_server) (get_field (request ''nowhere'' ''t'') ''id'') = None"
  by (simp_all add: example_server_eq request_def registry_get_def)

lemma small_server_eq:
  "small_server =
     \<lparr>config = \<lparr>reuseServer = None, port = Some 8080, maxMessageSize = Some 2,
                onClientConnected = None, onClientDisconnected = None, onError = None\<rparr>,
      create_config = small_config,
      wsServerClients = [0],
      exposedDataSources = Map.empty, exposedDuplexDataSources = Map.empty,
      exposedArrayDataSources = Map.empty,
      client_heap = (\<lambda>c. \<lparr>subscriptions = [], timeSinceLastMessage = None\<rparr>),
      next_client = 1, source_current = (\<lambda>a. JUndefined),
      propagateWritesToReadStream = (\<lambda>a. True), listeners = [],
      token_cancelled = (\<lambda>t. False), next_token = 0, effects = []\<rparr>"
  by (simp add: small_server_def small_created_def small_config_def example_defs fun_eq_iff)

lemma subscribed_once_eq:
  "subscribed_once =
     example_server
       \<lparr>client_heap := (client_heap example_server)
          (0 := \<lparr>subscriptions = [(JStr ''temperature'', 0)], timeSinceLastMessage = None\<rparr>),
        listeners := [\<lparr>l_source = 0, l_callback = ScalarCallback 0 (JStr ''temperature''), l_token = 0\<rparr>],
        token_cancelled := (\<lambda>t. False),
        next_token := 1,
        effects := [Send 0 UPDATE_DATASOURCE [(''id'', JStr ''temperature''), (''value'', JNum 20)]]\<rparr>"
  by (simp add: subscribed_once_def example_server_eq request_def registry_get_def handler_defs
      allow_all_def Let_def callback_frame_def fun_eq_iff)

lemma subscribed_twice_eq:
  "subscribed_twice =
     example_server
       \<lparr>client_heap := (client_heap example_server)
          (0 := \<lparr>subscriptions = [(JStr ''temperature'', 1)], timeSinceLastMessage = None\<rparr>),
        listeners := [\<lparr>l_source = 0, l_callback = ScalarCallback 0 (JStr ''temperature''), l_token = 0\<rparr>,
                      \<lparr>l_source = 0, l_callback = ScalarCallback 0 (JStr ''temperature''), l_token = 1\<rparr>],
        token_cancelled := (\<lambda>t. False),
        next_token := 2,
        effects := [Send 0 UPDATE_DATASOURCE [(''id'', JStr ''temperature''), (''value'', JNum 20)],
                    Send 0 UPDATE_DATASOURCE [(''id'', JStr ''temperature''), (''value'', JNum 20)]]\<rparr>"
  by (simp add: subscribed_twice_def subscribed_once_eq example_server_eq request_def registry_get_def
      handler_defs allow_all_def Let_def callback_frame_def fun_eq_iff)

section \<open>Refused subscriptions\<close>

text \<open>
  C1. A subscribe request for a registered id that the authenticator refuses gets the
  error frame with \<open>errorCode\<close> 401 and no listener is attached, but the subscription map
  does change: the handlers store the new token under the id before they ask the
  authenticator. Client 0 of the example server starts with an empty map; after a refused
  request for \<open>secret\<close> (scalar), \<open>vault\<close> (array) or \<open>door\<close> (duplex) the map holds token 0
  under that id.
\<close>

theorem C1_denied_subscribe_registers_handle:
  "subscriptions (client_heap example_server 0) = []
   \<and> delivered 0 (listenDataSource (request ''secret'' ''t'') 0 example_server) =
       [(LISTEN_DATASOURCE_ERR,
         [(''id'', JStr ''secret''), (''errorCode'', JNum 401), (''error'', JStr ''Unauthorized'')])]
   \<and> listeners (listenDataSource (request ''secret'' ''t'') 0 example_server) = []
   \<and> subscriptions (client_heap (listenDataSource (request ''secret'' ''t'') 0 example_server) 0)
        = [(JStr ''secret'', 0)]
   \<and> delivered 0 (listenArrayDataSource example_runtime (request ''vault'' ''t'') 0 example_server) =
       [(LISTEN_ARRAY_DATASOURCE_ERR,
         [(''id'', JStr ''vault''), (''errorCode'', JNum 401), (''error'', JStr ''Unauthorized'')])]
   \<and> listeners (listenArrayDataSource example_runtime (request ''vault'' ''t'') 0 example_server) = []
   \<and> subscriptions (client_heap (listenArrayDataSource example_runtime (request ''vault'' ''t'') 0 example_server) 0)
        = [(JStr ''vault'', 0)]
   \<and> delivered 0 (listenDuplexDataSource (request ''door'' ''guest'') 0 example_server) =
       [(LISTEN_DUPLEX_DATASOURCE_ERR,
         [(''id'', JStr ''door''), (''errorCode'', JNum 401), (''error'', JStr ''Unauthorized'')])]
   \<and> listeners (listenDuplexDataSource (request ''door'' ''guest'') 0 example_server) = []
   \<and> subscriptions (client_heap (listenDuplexDataSource (request ''door'' ''guest'') 0 example_server) 0)
        = [(JStr ''door'', 0)]"
  by (simp add: example_server_eq request_def registry_get_def handler_defs delivered_def
      deny_all_def admin_only_def Let_def)

section \<open>Collection changes on the wire\<close>

text \<open>
  C2 (as amended). The current server (src/src/client.ts) forwards a copy of every change
  without the fields \<open>operation\<close>, \<open>previousState\<close> and \<open>newState\<close>, whatever the kind of
  the change, merge included; every other field (the detailed kind, the positions, the
  items) is forwarded as it is. The array callback of the earlier revision
  (src/unnamed/part_000) drops the two snapshots unless \<open>change.operation\<close> is
  \<open>"merge"\<close>, and keeps every other field.
\<close>

theorem C2_forwarded_change:
  "run_callback (ArrayCallback sender i) (JObj change) s =
     s\<lparr>effects := effects s @
          [Send sender UPDATE_ARRAY_DATASOURCE [(''id'', i), (''change'', JObj (strip_change change))]]\<rparr>
   \<and> map_of (strip_change change) k =
       (if k = ''operation'' \<or> k = ''previousState'' \<or> k = ''newState'' then None else map_of change k)
   \<and> run_callback (LegacyArrayCallback sender i) (JObj change) s =
     s\<lparr>effects := effects s @
          [Send sender UPDATE_DATASOURCE [(''id'', i), (''change'', JObj (strip_change_legacy change))]]\<rparr>
   \<and> map_of (strip_change_legacy change) k =
       (if (k = ''previousState'' \<or> k = ''newState'') \<and> get_field (JObj change) ''operation'' \<noteq> JStr ''merge''
        then None else map_of change k)"
  by (auto simp add: sendMessage_def emit_def strip_change_def strip_change_legacy_def delete_conv
      strict_equals_def)

text \<open>A merge with both snapshots reaches the subscribed client without them.\<close>

theorem C2_merge_forwarded_without_snapshots:
  "get_field example_merge ''operationDetailed'' = JStr ''merge''
   \<and> get_field example_merge ''previousState'' = JArr [JNum 1, JNum 2, JNum 3]
   \<and> get_field example_merge ''newState'' = JArr [JNum 1, JNum 3]
   \<and> delivered 0 (ArrayDataSource_mutate 3 (JArr [JNum 1, JNum 3]) example_merge
          (listenArrayDataSource example_runtime (request ''items'' ''t'') 0 example_server)) =
       [(UPDATE_ARRAY_DATASOURCE,
         [(''id'', JStr ''items''),
          (''change'', JObj [(''operationDetailed'', JStr ''append''),
                             (''items'', JArr [JNum 1, JNum 2, JNum 3])])]),
        (UPDATE_ARRAY_DATASOURCE,
         [(''id'', JStr ''items''),
          (''change'', JObj [(''operationDetailed'', JStr ''merge''), (''index'', JNum 0),
                             (''items'', JArr [JNum 1, JNum 3])])])]"
  by (simp add: example_merge_def example_server_eq request_def registry_get_def handler_defs
      delivered_def allow_all_def Let_def example_runtime_def ArrayDataSource_mutate_def fire_frames
      callback_frame_def strip_change_def)

section \<open>Closing a connection\<close>

lemma hooked_once_eq:
  "hooked_once =
     \<lparr>config = \<lparr>reuseServer = None, port = Some 8080, maxMessageSize = Some 1048576,
                onClientConnected = Some 7, onClientDisconnected = Some 8, onError = None\<rparr>,
      create_config = hooked_config,
      wsServerClients = [0],
      exposedDataSources = [''temperature'' \<mapsto> \<lparr>source = 0, authenticator = allow_all\<rparr>],
      exposedDuplexDataSources = Map.empty,
      exposedArrayDataSources = Map.empty,
      client_heap = (\<lambda>c. \<lparr>subscriptions = [], timeSinceLastMessage = None\<rparr>)
        (0 := \<lparr>subscriptions = [(JStr ''temperature'', 0)], timeSinceLastMessage = None\<rparr>),
      next_client = 1,
      source_current = (\<lambda>a. JUndefined)(0 := JNum 20),
      propagateWritesToReadStream = (\<lambda>a. True),
      listeners = [\<lparr>l_source = 0, l_callback = ScalarCallback 0 (JStr ''temperature''), l_token = 0\<rparr>],
      token_cancelled = (\<lambda>t. False),
      next_token = 1,
      effects = [ClientConnected 7 0,
                 Send 0 UPDATE_DATASOURCE [(''id'', JStr ''temperature''), (''value'', JNum 20)]]\<rparr>"
  by (simp add: hooked_once_def hooked_config_def example_defs request_def registry_get_def
      handler_defs allow_all_def Let_def callback_frame_def emit_def fun_eq_iff)

lemma close_steps_eq:
  "close_steps client s =
     [forget_client client s,
      dispose client (forget_client client s),
      call_hook ClientDisconnected (onClientDisconnected (create_config s)) client
        (dispose client (forget_client client s))]"
  by (simp add: close_steps_def Let_def dispose_def forget_client_def)

text \<open>Subscribe requests keep every listener of a session under a handle of its map, as
  long as the session asks for ids its map does not hold yet; mutations change neither.\<close>

lemma update_fresh_set:
  "k \<notin> fst ` set al \<Longrightarrow> set (AList.update k v al) = insert (k, v) (set al)"
  by (induction al) auto

lemma handles_registered_subscribe:
  assumes "handles_registered c s"
      and "sender \<noteq> c \<or> get_field message ''id'' \<notin> fst ` set (subscriptions (client_heap s c))"
  shows "handles_registered c (listenDataSource message sender s)"
        "handles_registered c (listenDuplexDataSource message sender s)"
        "handles_registered c (listenArrayDataSource rt message sender s)"
  using assms
  by (auto simp add: handles_registered_def handler_defs Let_def update_fresh_set list_all_iff
      split: option.splits)

lemma handles_registered_mutations:
  "handles_registered c (mutations ms s) = handles_registered c s"
  by (simp add: handles_registered_def mutations_frames)

text \<open>
  C3 (as amended). The close handler first removes the session from \<open>wsServerClients\<close>; no
  token is cancelled at that point and the subscription map is still full. Then it
  disposes the session: every handle in the subscription map is cancelled and the map
  emptied. Then it calls the disconnect hook, if there is one, with the session. The
  handler leaves the last of these states, in which a session of a duplicate-free live
  list is forgotten. If every listener of the session has its handle in the session's
  subscription map, no mutation of any source after the close delivers anything to the
  session.
\<close>

theorem C3_close_handler:
  "map wsServerClients (close_steps client s) =
     [splice_indexOf client (wsServerClients s), splice_indexOf client (wsServerClients s),
      splice_indexOf client (wsServerClients s)]
   \<and> map token_cancelled (close_steps client s) =
     [token_cancelled s,
      (\<lambda>t. token_cancelled s t \<or> t \<in> snd ` set (subscriptions (client_heap s client))),
      (\<lambda>t. token_cancelled s t \<or> t \<in> snd ` set (subscriptions (client_heap s client)))]
   \<and> map (\<lambda>s'. subscriptions (client_heap s' client)) (close_steps client s) =
     [subscriptions (client_heap s client), [], []]
   \<and> map effects (close_steps client s) =
     [effects s, effects s,
      effects s @ (case onClientDisconnected (create_config s) of
                     None \<Rightarrow> [] | Some h \<Rightarrow> [ClientDisconnected h client])]
   \<and> last (close_steps client s) = on_close client s
   \<and> (distinct (wsServerClients s) \<longrightarrow> client \<notin> set (wsServerClients (on_close client s)))
   \<and> (handles_registered client s \<longrightarrow>
        delivered client (mutations ms (on_close client s)) = delivered client s)"
proof -
  have forgotten: "distinct (wsServerClients s) \<longrightarrow> client \<notin> set (wsServerClients (on_close client s))"
    by (simp add: on_close_fields splice_indexOf_forgets)
  have quiet: "handles_registered client s \<longrightarrow>
                 delivered client (mutations ms (on_close client s)) = delivered client s"
  proof (rule impI)
    assume registered: "handles_registered client s"
    have silent: "list_all (\<lambda>l. callback_client (l_callback l) = client \<longrightarrow>
                    token_cancelled (on_close client s) (l_token l)) (listeners (on_close client s))"
      using registered by (simp add: handles_registered_def on_close_fields list_all_iff)
    have "sent_to client (mutation_frames (token_cancelled (on_close client s))
                            (listeners (on_close client s)) m) = []" for m
      by (cases m) (simp_all add: sent_to_frames_silent [OF silent])
    then have "delivered client (mutations ms (on_close client s)) = delivered client (on_close client s)"
      by (simp add: delivered_mutations)
    then show "delivered client (mutations ms (on_close client s)) = delivered client s"
      by (simp add: on_close_fields)
  qed
  have steps:
    "map wsServerClients (close_steps client s) =
       [splice_indexOf client (wsServerClients s), splice_indexOf client (wsServerClients s),
        splice_indexOf client (wsServerClients s)]"
    "map token_cancelled (close_steps client s) =
       [token_cancelled s,
        (\<lambda>t. token_cancelled s t \<or> t \<in> snd ` set (subscriptions (client_heap s client))),
        (\<lambda>t. token_cancelled s t \<or> t \<in> snd ` set (subscriptions (client_heap s client)))]"
    "map (\<lambda>s'. subscriptions (client_heap s' client)) (close_steps client s) =
       [subscriptions (client_heap s client), [], []]"
    "map effects (close_steps client s) =
       [effects s, effects s,
        effects s @ (case onClientDisconnected (create_config s) of
                       None \<Rightarrow> [] | Some h \<Rightarrow> [ClientDisconnected h client])]"
    by (simp_all add: close_steps_eq forget_client_def dispose_def call_hook_def emit_def
        split: option.splits)
  have final: "last (close_steps client s) = on_close client s"
    by (simp add: on_close_def)
  from steps final forgotten quiet show ?thesis
    by (intro conjI)
qed

theorem C3_close_handler_witness:
  "distinct (wsServerClients hooked_once) \<and> handles_registered 0 hooked_once
   \<and> wsServerClients hooked_once = [0]
   \<and> subscriptions (client_heap hooked_once 0) = [(JStr ''temperature'', 0)]
   \<and> onClientDisconnected (create_config hooked_once) = Some 8
   \<and> map wsServerClients (close_steps 0 hooked_once) = [[], [], []]
   \<and> map (\<lambda>s. token_cancelled s 0) (close_steps 0 hooked_once) = [False, True, True]
   \<and> map (\<lambda>s. subscriptions (client_heap s 0)) (close_steps 0 hooked_once) =
        [[(JStr ''temperature'', 0)], [], []]
   \<and> effects (on_close 0 hooked_once) = effects hooked_once @ [ClientDisconnected 8 0]
   \<and> wsServerClients (on_close 0 hooked_once) = []
   \<and> delivered 0 hooked_once =
       [(UPDATE_DATASOURCE, [(''id'', JStr ''temperature''), (''value'', JNum 20)])]
   \<and> delivered 0 (mutations [Update 0 (JNum 21), Update 0 (JNum 22)] (on_close 0 hooked_once)) =
       [(UPDATE_DATASOURCE, [(''id'', JStr ''temperature''), (''value'', JNum 20)])]"
proof -
  have d: "distinct (wsServerClients hooked_once)"
    by (simp add: hooked_once_eq)
  have h: "handles_registered 0 hooked_once"
    by (simp add: hooked_once_eq handles_registered_def)
  have before: "wsServerClients hooked_once = [0]"
      "subscriptions (client_heap hooked_once 0) = [(JStr ''temperature'', 0)]"
      "onClientDisconnected (create_config hooked_once) = Some 8"
      "token_cancelled hooked_once = (\<lambda>t. False)"
      "delivered 0 hooked_once =
         [(UPDATE_DATASOURCE, [(''id'', JStr ''temperature''), (''value'', JNum 20)])]"
    by (simp_all add: hooked_once_eq hooked_config_def example_config_def delivered_def)
  note close = C3_close_handler [of 0 hooked_once "[Update 0 (JNum 21), Update 0 (JNum 22)]"]
  from close have clients: "map wsServerClients (close_steps 0 hooked_once) = [[], [], []]"
    by (simp add: before splice_indexOf_def)
  from close have tokens: "map token_cancelled (close_steps 0 hooked_once) =
      [\<lambda>t. False, \<lambda>t. t = 0, \<lambda>t. t = 0]"
    by (simp add: before)
  have tokens0: "map (\<lambda>s. token_cancelled s 0) (close_steps 0 hooked_once) = [False, True, True]"
    using arg_cong [OF tokens, of "map (\<lambda>f. f (0::nat))"] by (simp add: comp_def)
  from close have subs: "map (\<lambda>s. subscriptions (client_heap s 0)) (close_steps 0 hooked_once) =
        [[(JStr ''temperature'', 0)], [], []]"
    by (simp add: before)
  from close have eff: "map effects (close_steps 0 hooked_once) =
        [effects hooked_once, effects hooked_once, effects hooked_once @ [ClientDisconnected 8 0]]"
    by (simp add: before)
  from close have last_step: "last (close_steps 0 hooked_once) = on_close 0 hooked_once"
    by simp
  have eff_last: "effects (on_close 0 hooked_once) = effects hooked_once @ [ClientDisconnected 8 0]"
    using arg_cong [OF eff, of last] last_step by (simp add: last_map close_steps_eq)
  have clients_last: "wsServerClients (on_close 0 hooked_once) = []"
    using arg_cong [OF clients, of last] last_step by (simp add: last_map close_steps_eq)
  from close h have quiet:
    "delivered 0 (mutations [Update 0 (JNum 21), Update 0 (JNum 22)] (on_close 0 hooked_once)) =
       delivered 0 hooked_once"
    by simp
  from d h before clients tokens0 subs eff_last clients_last quiet show ?thesis
    by simp
qed

text \<open>The session is forgotten before its subscription is cancelled: after the first
  statement of the handler the live list is empty and token 0 is not cancelled.\<close>

theorem C3_forgotten_before_cancelled:
  "wsServerClients hooked_once = [0]
   \<and> subscriptions (client_heap hooked_once 0) = [(JStr ''temperature'', 0)]
   \<and> map wsServerClients (close_steps 0 hooked_once) = [[], [], []]
   \<and> map (\<lambda>s. token_cancelled s 0) (close_steps 0 hooked_once) = [False, True, True]"
  by (simp add: hooked_once_eq close_steps_eq forget_client_def dispose_def call_hook_def
      splice_indexOf_def emit_def hooked_config_def example_config_def)

section \<open>The stream of a scalar subscription\<close>

text \<open>
  C4 (as amended). A client that has no listener on the source yet subscribes to a
  registered scalar id. In the current server (src/src/client.ts), when the authenticator
  grants the read, the first frame the client gets is \<open>UPDATE_DATASOURCE\<close> with the
  source's current value (\<open>listenAndRepeat\<close> replays it; no acknowledgment frame exists),
  and every later update of the source adds exactly one \<open>UPDATE_DATASOURCE\<close> frame with the
  new value, in the order of the updates. In the earlier revision (src/unnamed/part_000),
  which asks no authenticator, the first frame is \<open>LISTEN_DATASOURCE_OK\<close> with the current
  value, followed by the same stream.
\<close>

theorem C4_scalar_subscription_stream:
  assumes hit: "registry_get (exposedDataSources s) (get_field message ''id'') = Some endpoint"
      and fresh: "not_listening sender (source endpoint) s"
  shows "(authenticator endpoint (get_field message ''token'') OpRead \<longrightarrow>
            delivered sender (mutations (map (Update (source endpoint)) vs) (listenDataSource message sender s))
            = delivered sender s
              @ (UPDATE_DATASOURCE,
                 [(''id'', get_field message ''id''), (''value'', source_current s (source endpoint))])
              # map (\<lambda>v. (UPDATE_DATASOURCE, [(''id'', get_field message ''id''), (''value'', v)])) vs)
       \<and> delivered sender (mutations (map (Update (source endpoint)) vs) (listenDataSource_legacy message sender s))
            = delivered sender s
              @ (LISTEN_DATASOURCE_OK,
                 [(''id'', get_field message ''id''), (''value'', source_current s (source endpoint))])
              # map (\<lambda>v. (UPDATE_DATASOURCE, [(''id'', get_field message ''id''), (''value'', v)])) vs"
proof -
  let ?i = "get_field message ''id''"
  let ?src = "source endpoint"
  let ?new = "\<lparr>l_source = ?src, l_callback = ScalarCallback sender ?i, l_token = next_token s\<rparr>"
  from fresh have other:
    "list_all (\<lambda>l. \<not> (l_source l = ?src \<and> callback_client (l_callback l) = sender)) (listeners s)"
    by (simp add: not_listening_def)
  have current: "authenticator endpoint (get_field message ''token'') OpRead \<Longrightarrow>
      listeners (listenDataSource message sender s) = listeners s @ [?new]
      \<and> \<not> token_cancelled (listenDataSource message sender s) (next_token s)
      \<and> delivered sender (listenDataSource message sender s)
          = delivered sender s @ [(UPDATE_DATASOURCE, [(''id'', ?i), (''value'', source_current s ?src)])]"
    using hit
    by (simp add: handler_defs Let_def delivered_def sent_to_append callback_frame_def)
  have legacy:
      "listeners (listenDataSource_legacy message sender s) = listeners s @ [?new]
      \<and> \<not> token_cancelled (listenDataSource_legacy message sender s) (next_token s)
      \<and> delivered sender (listenDataSource_legacy message sender s)
          = delivered sender s @ [(LISTEN_DATASOURCE_OK, [(''id'', ?i), (''value'', source_current s ?src)])]"
    using hit
    by (simp add: handler_defs Let_def delivered_def sent_to_append)
  show ?thesis
  proof (intro conjI impI)
    assume "authenticator endpoint (get_field message ''token'') OpRead"
    from current [OF this] delivered_updates [of "listenDataSource message sender s" "listeners s" ?src sender ?i "next_token s" vs] other
    show "delivered sender (mutations (map (Update ?src) vs) (listenDataSource message sender s))
            = delivered sender s
              @ (UPDATE_DATASOURCE, [(''id'', ?i), (''value'', source_current s ?src)])
              # map (\<lambda>v. (UPDATE_DATASOURCE, [(''id'', ?i), (''value'', v)])) vs"
      by simp
  next
    from legacy delivered_updates [of "listenDataSource_legacy message sender s" "listeners s" ?src sender ?i "next_token s" vs] other
    show "delivered sender (mutations (map (Update ?src) vs) (listenDataSource_legacy message sender s))
            = delivered sender s
              @ (LISTEN_DATASOURCE_OK, [(''id'', ?i), (''value'', source_current s ?src)])
              # map (\<lambda>v. (UPDATE_DATASOURCE, [(''id'', ?i), (''value'', v)])) vs"
      by simp
  qed
qed

theorem C4_scalar_subscription_stream_witness:
  "registry_get (exposedDataSources example_server) (get_field (request ''temperature'' ''t'') ''id'')
     = Some \<lparr>source = 0, authenticator = allow_all\<rparr>
   \<and> not_listening 0 0 example_server
   \<and> allow_all (get_field (request ''temperature'' ''t'') ''token'') OpRead
   \<and> delivered 0 (mutations [Update 0 (JNum 21), Update 0 (JNum 22)]
                    (listenDataSource (request ''temperature'' ''t'') 0 example_server)) =
       [(UPDATE_DATASOURCE, [(''id'', JStr ''temperature''), (''value'', JNum 20)]),
        (UPDATE_DATASOURCE, [(''id'', JStr ''temperature''), (''value'', JNum 21)]),
        (UPDATE_DATASOURCE, [(''id'', JStr ''temperature''), (''value'', JNum 22)])]
   \<and> delivered 0 (mutations [Update 0 (JNum 21), Update 0 (JNum 22)]
                    (listenDataSource_legacy (request ''temperature'' ''t'') 0 example_server)) =
       [(LISTEN_DATASOURCE_OK, [(''id'', JStr ''temperature''), (''value'', JNum 20)]),
        (UPDATE_DATASOURCE, [(''id'', JStr ''temperature''), (''value'', JNum 21)]),
        (UPDATE_DATASOURCE, [(''id'', JStr ''temperature''), (''value'', JNum 22)])]"
proof -
  have hit: "registry_get (exposedDataSources example_server) (get_field (request ''temperature'' ''t'') ''id'')
     = Some \<lparr>source = 0, authenticator = allow_all\<rparr>"
    by (simp add: example_server_eq request_def registry_get_def)
  have fresh: "not_listening (0::nat) (source \<lparr>source = 0, authenticator = allow_all\<rparr>) example_server"
    by (simp add: not_listening_def example_server_eq)
  have start: "delivered 0 example_server = []" "source_current example_server 0 = JNum 20"
    by (simp_all add: delivered_def example_server_eq)
  show ?thesis
    using hit fresh
      C4_scalar_subscription_stream [OF hit fresh, of "[JNum 21, JNum 22]"]
    by (simp add: start allow_all_def request_def)
qed

text \<open>The first frame of a granted subscription is an update, not an acknowledgment.\<close>

theorem C4_first_message_is_an_update:
  "registry_get (exposedDataSources example_server) (get_field (request ''temperature'' ''t'') ''id'')
     = Some \<lparr>source = 0, authenticator = allow_all\<rparr>
   \<and> allow_all (get_field (request ''temperature'' ''t'') ''token'') OpRead
   \<and> delivered 0 example_server = []
   \<and> delivered 0 (listenDataSource (request ''temperature'' ''t'') 0 example_server) =
       [(UPDATE_DATASOURCE, [(''id'', JStr ''temperature''), (''value'', JNum 20)])]"
  by (simp add: example_server_eq request_def registry_get_def handler_defs allow_all_def Let_def
      delivered_def callback_frame_def)

section \<open>Writes to a duplex source\<close>

lemma upstream_pushes_frames: "upstream_pushes (frames_of canc src ev ls) = []"
  by (induction ls) (simp_all add: callback_frame_def)

lemma updateUpstream_effects:
  "effects (updateUpstream src v s) =
     effects s @ UpdateUpstream src v #
       (if propagateWritesToReadStream s src then frames_of (token_cancelled s) src v (listeners s)
        else [])"
  "source_current (updateUpstream src v s) = (source_current s)(src := v)"
  "(updateUpstream src v s)\<lparr>effects := effects s, source_current := source_current s\<rparr> = s"
  by (simp_all add: updateUpstream_def emit_def fire_frames Let_def)

lemma door_subscribed_eq:
  "door_subscribed =
     example_server
       \<lparr>client_heap := (client_heap example_server)
          (0 := \<lparr>subscriptions = [(JStr ''door'', 0)], timeSinceLastMessage = None\<rparr>),
        source_current := (source_current example_server)(2 := JStr ''closed''),
        listeners := [\<lparr>l_source = 2, l_callback = DuplexCallback 0 (JStr ''door''), l_token = 0\<rparr>],
        token_cancelled := (\<lambda>t. False),
        next_token := 1,
        effects := [Send 0 UPDATE_DUPLEX_DATASOURCE [(''id'', JStr ''door''), (''value'', JStr ''closed'')]]\<rparr>"
  by (simp add: door_subscribed_def example_server_eq request_def registry_get_def handler_defs
      admin_only_def Let_def callback_frame_def DataSource_update_def fun_eq_iff)

text \<open>
  C5 (as amended). A write-duplex request whose id is registered. When the authenticator
  grants \<open>(token, "write")\<close>, the handler calls \<open>updateUpstream\<close> once, with the value of the
  request, and writes no frame of its own; the source stores the value and, if it
  propagates writes to its read stream, its live listeners deliver the value to their
  sessions in subscription order, so a session with no listener on the source gets
  nothing; nothing else in the server changes. When the authenticator refuses, nothing is
  pushed and the sender gets \<open>UPDATE_DUPLEX_DATASOURCE_ERR\<close> with \<open>errorCode\<close> 401.
\<close>

theorem C5_write_duplex:
  assumes "registry_get (exposedDuplexDataSources s) (get_field message ''id'') = Some endpoint"
  shows "(if authenticator endpoint (get_field message ''token'') OpWrite
          then effects (updateDuplexDataSource message sender s) =
                 effects s @ UpdateUpstream (source endpoint) (get_field message ''value'') #
                   (if propagateWritesToReadStream s (source endpoint)
                    then frames_of (token_cancelled s) (source endpoint)
                           (get_field message ''value'') (listeners s)
                    else [])
             \<and> upstream_pushes (effects (updateDuplexDataSource message sender s)) =
                 upstream_pushes (effects s) @ [(source endpoint, get_field message ''value'')]
             \<and> source_current (updateDuplexDataSource message sender s) =
                 (source_current s)(source endpoint := get_field message ''value'')
             \<and> (updateDuplexDataSource message sender s)
                   \<lparr>effects := effects s, source_current := source_current s\<rparr> = s
             \<and> (\<forall>c. not_listening c (source endpoint) s \<longrightarrow>
                    delivered c (updateDuplexDataSource message sender s) = delivered c s)
          else updateDuplexDataSource message sender s =
                 s\<lparr>effects := effects s @
                      [Send sender UPDATE_DUPLEX_DATASOURCE_ERR
                         [(''id'', get_field message ''id''), (''errorCode'', JNum 401),
                          (''error'', JStr ''Unauthorized'')]]\<rparr>
             \<and> upstream_pushes (effects (updateDuplexDataSource message sender s)) =
                 upstream_pushes (effects s)
             \<and> delivered sender (updateDuplexDataSource message sender s) =
                 delivered sender s @
                   [(UPDATE_DUPLEX_DATASOURCE_ERR,
                     [(''id'', get_field message ''id''), (''errorCode'', JNum 401),
                      (''error'', JStr ''Unauthorized'')])])"
proof (cases "authenticator endpoint (get_field message ''token'') OpWrite")
  case True
  then have run: "updateDuplexDataSource message sender s =
                    updateUpstream (source endpoint) (get_field message ''value'') s"
    using assms by (simp add: updateDuplexDataSource_def Let_def)
  have quiet: "delivered c (updateUpstream (source endpoint) (get_field message ''value'') s)
                 = delivered c s"
    if "not_listening c (source endpoint) s" for c
    using that
    by (simp add: delivered_def updateUpstream_effects sent_to_append not_listening_def
        sent_to_frames_other)
  show ?thesis
    using True quiet
    by (simp add: run updateUpstream_effects upstream_pushes_append upstream_pushes_frames)
next
  case False
  then show ?thesis
    using assms
    by (simp add: updateDuplexDataSource_def sendMessage_def emit_def Let_def delivered_def
        sent_to_append upstream_pushes_append)
qed

theorem C5_write_duplex_witness:
  "registry_get (exposedDuplexDataSources door_subscribed)
      (get_field (write_request ''door'' ''admin'' (JStr ''open'')) ''id'')
     = Some \<lparr>source = 2, authenticator = admin_only\<rparr>
   \<and> propagateWritesToReadStream door_subscribed 2
   \<and> not_listening 1 2 door_subscribed
   \<and> effects (updateDuplexDataSource (write_request ''door'' ''admin'' (JStr ''open'')) 0 door_subscribed)
     = effects door_subscribed @
         [UpdateUpstream 2 (JStr ''open''),
          Send 0 UPDATE_DUPLEX_DATASOURCE [(''id'', JStr ''door''), (''value'', JStr ''open'')]]
   \<and> upstream_pushes (effects (updateDuplexDataSource (write_request ''door'' ''admin'' (JStr ''open'')) 0 door_subscribed))
     = [(2, JStr ''open'')]
   \<and> source_current (updateDuplexDataSource (write_request ''door'' ''admin'' (JStr ''open'')) 0 door_subscribed) 2
     = JStr ''open''
   \<and> delivered 1 (updateDuplexDataSource (write_request ''door'' ''admin'' (JStr ''open'')) 0 door_subscribed)
     = []
   \<and> upstream_pushes (effects (updateDuplexDataSource (write_request ''door'' ''guest'' (JStr ''open'')) 0 door_subscribed))
     = []
   \<and> delivered 0 (updateDuplexDataSource (write_request ''door'' ''guest'' (JStr ''open'')) 0 door_subscribed)
     = delivered 0 door_subscribed @
        [(UPDATE_DUPLEX_DATASOURCE_ERR,
          [(''id'', JStr ''door''), (''errorCode'', JNum 401), (''error'', JStr ''Unauthorized'')])]"
proof -
  have admin: "registry_get (exposedDuplexDataSources door_subscribed)
      (get_field (write_request ''door'' ''admin'' (JStr ''open'')) ''id'')
     = Some \<lparr>source = 2, authenticator = admin_only\<rparr>"
    by (simp add: door_subscribed_eq example_server_eq write_request_def registry_get_def)
  have guest: "registry_get (exposedDuplexDataSources door_subscribed)
      (get_field (write_request ''door'' ''guest'' (JStr ''open'')) ''id'')
     = Some \<lparr>source = 2, authenticator = admin_only\<rparr>"
    by (simp add: door_subscribed_eq example_server_eq write_request_def registry_get_def)
  have other: "not_listening 1 2 door_subscribed"
    by (simp add: not_listening_def door_subscribed_eq)
  have start: "propagateWritesToReadStream door_subscribed 2"
      "listeners door_subscribed =
         [\<lparr>l_source = 2, l_callback = DuplexCallback 0 (JStr ''door''), l_token = 0\<rparr>]"
      "\<not> token_cancelled door_subscribed 0"
      "upstream_pushes (effects door_subscribed) = []"
      "delivered 1 door_subscribed = []"
    by (simp_all add: door_subscribed_eq example_server_eq delivered_def)
  show ?thesis
    using admin other start
      C5_write_duplex [OF admin, of 0] C5_write_duplex [OF guest, of 0]
    by (simp add: write_request_def admin_only_def callback_frame_def upstream_pushes_append
        delivered_def sent_to_append)
qed

text \<open>A writer that is subscribed to the source gets a frame for its own granted write.\<close>

theorem C5_subscribed_writer_gets_a_frame:
  "registry_get (exposedDuplexDataSources door_subscribed)
      (get_field (write_request ''door'' ''admin'' (JStr ''open'')) ''id'')
     = Some \<lparr>source = 2, authenticator = admin_only\<rparr>
   \<and> admin_only (get_field (write_request ''door'' ''admin'' (JStr ''open'')) ''token'') OpWrite
   \<and> delivered 0 door_subscribed =
       [(UPDATE_DUPLEX_DATASOURCE, [(''id'', JStr ''door''), (''value'', JStr ''closed'')])]
   \<and> delivered 0 (updateDuplexDataSource (write_request ''door'' ''admin'' (JStr ''open'')) 0 door_subscribed) =
       [(UPDATE_DUPLEX_DATASOURCE, [(''id'', JStr ''door''), (''value'', JStr ''closed'')]),
        (UPDATE_DUPLEX_DATASOURCE, [(''id'', JStr ''door''), (''value'', JStr ''open'')])]"
  by (simp add: door_subscribed_eq example_server_eq write_request_def registry_get_def
      updateDuplexDataSource_def updateUpstream_def emit_def fire_frames callback_frame_def
      admin_only_def delivered_def Let_def)

section \<open>Requests for an id that is not registered\<close>

text \<open>
  C6 (as amended). A subscribe or write-duplex request whose id is not in the registry of
  its kind is answered with one error frame and changes nothing else: not the subscription
  map, not the registries, not the listeners. The current server (src/src/client.ts) answers
  \<open>errorCode\<close> 404 in all four handlers; the earlier revision of \<open>listenDataSource\<close>
  (src/unnamed/part_000) answers \<open>errorCode\<close> 0.
\<close>

theorem C6_unknown_id:
  "(registry_get (exposedDataSources s) (get_field message ''id'') = None \<longrightarrow>
      listenDataSource message sender s =
        s\<lparr>effects := effects s @
             [Send sender LISTEN_DATASOURCE_ERR
                [(''id'', get_field message ''id''), (''errorCode'', JNum 404),
                 (''error'', JStr ''No such datasource'')]]\<rparr>
    \<and> listenDataSource_legacy message sender s =
        s\<lparr>effects := effects s @
             [Send sender LISTEN_DATASOURCE_ERR
                [(''id'', get_field message ''id''), (''errorCode'', JNum 0),
                 (''error'', JStr ''No such datasource'')]]\<rparr>)
   \<and> (registry_get (exposedArrayDataSources s) (get_field message ''id'') = None \<longrightarrow>
      listenArrayDataSource rt message sender s =
        s\<lparr>effects := effects s @
             [Send sender LISTEN_ARRAY_DATASOURCE_ERR
                [(''id'', get_field message ''id''), (''errorCode'', JNum 404),
                 (''error'', JStr ''No such array datasource'')]]\<rparr>)
   \<and> (registry_get (exposedDuplexDataSources s) (get_field message ''id'') = None \<longrightarrow>
      listenDuplexDataSource message sender s =
        s\<lparr>effects := effects s @
             [Send sender LISTEN_DUPLEX_DATASOURCE_ERR
                [(''id'', get_field message ''id''), (''errorCode'', JNum 404),
                 (''error'', JStr ''No such duplex datasource'')]]\<rparr>
    \<and> updateDuplexDataSource message sender s =
        s\<lparr>effects := effects s @
             [Send sender UPDATE_DUPLEX_DATASOURCE_ERR
                [(''id'', get_field message ''id''), (''errorCode'', JNum 404),
                 (''error'', JStr ''No such duplex datasource'')]]\<rparr>)"
  by (simp add: listenDataSource_def listenArrayDataSource_def listenDuplexDataSource_def
      updateDuplexDataSource_def listenDataSource_legacy_def sendMessage_def emit_def Let_def)

theorem C6_unknown_id_witness:
  "registry_get (exposedDataSources example_server) (get_field (request ''nowhere'' ''t'') ''id'') = None
   \<and> registry_get (exposedArrayDataSources example_server) (get_field (request ''nowhere'' ''t'') ''id'') = None
   \<and> registry_get (exposedDuplexDataSources example_server) (get_field (request ''nowhere'' ''t'') ''id'') = None
   \<and> effects (listenDataSource (request ''nowhere'' ''t'') 0 example_server) =
       [Send 0 LISTEN_DATASOURCE_ERR
          [(''id'', JStr ''nowhere''), (''errorCode'', JNum 404), (''error'', JStr ''No such datasource'')]]
   \<and> effects (listenArrayDataSource example_runtime (request ''nowhere'' ''t'') 0 example_server) =
       [Send 0 LISTEN_ARRAY_DATASOURCE_ERR
          [(''id'', JStr ''nowhere''), (''errorCode'', JNum 404), (''error'', JStr ''No such array datasource'')]]
   \<and> effects (listenDuplexDataSource (request ''nowhere'' ''t'') 0 example_server) =
       [Send 0 LISTEN_DUPLEX_DATASOURCE_ERR
          [(''id'', JStr ''nowhere''), (''errorCode'', JNum 404), (''error'', JStr ''No such duplex datasource'')]]
   \<and> effects (updateDuplexDataSource (request ''nowhere'' ''t'') 0 example_server) =
       [Send 0 UPDATE_DUPLEX_DATASOURCE_ERR
          [(''id'', JStr ''nowhere''), (''errorCode'', JNum 404), (''error'', JStr ''No such duplex datasource'')]]
   \<and> client_heap (listenDataSource (request ''nowhere'' ''t'') 0 example_server) = client_heap example_server
   \<and> listeners (listenDataSource (request ''nowhere'' ''t'') 0 example_server) = []"
proof -
  have start: "effects example_server = []" "listeners example_server = []"
    by (simp_all add: example_server_eq)
  have i: "get_field (request ''nowhere'' ''t'') ''id'' = JStr ''nowhere''"
    by (simp add: request_def)
  show ?thesis
    using example_nowhere
      C6_unknown_id [of example_server "request ''nowhere'' ''t''" 0 example_runtime]
    by (simp add: start i)
qed

text \<open>The claim's 404 fails on the earlier revision: an unknown id gets \<open>errorCode\<close> 0.\<close>

theorem C6_earlier_revision_answers_0:
  "registry_get (exposedDataSources example_server) (get_field (request ''nowhere'' ''t'') ''id'') = None
   \<and> delivered 0 (listenDataSource_legacy (request ''nowhere'' ''t'') 0 example_server) =
       [(LISTEN_DATASOURCE_ERR,
         [(''id'', JStr ''nowhere''), (''errorCode'', JNum 0), (''error'', JStr ''No such datasource'')])]"
  by (simp add: listenDataSource_legacy_def sendMessage_def emit_def delivered_def
      example_server_eq request_def registry_get_def Let_def)

section \<open>The size limit\<close>

text \<open>
  C7. A server created with a limit of two characters and an error observer: \<open>create\<close>
  does not pass \<open>onError\<close> on, so \<open>this.config.onError\<close> is absent; the frame \<open>{}\<close>, whose
  size equals the limit, is rejected (it is not parsed, the timestamp stays unset), and
  neither it nor the longer frame \<open>[]7\<close> reaches the observer.
\<close>

theorem C7_frame_at_limit_rejected_unobserved:
  "create (Some small_config) = Inr small_created
   \<and> onError small_config = Some 9
   \<and> onError (config small_server) = None
   \<and> maxMessageSize (config small_server) = Some 2
   \<and> int (length ''{}'') = 2
   \<and> JSON_parse example_runtime ''{}'' = Some (JObj [])
   \<and> processMessage example_runtime 1000 0 (Text ''{}'') small_server = small_server
   \<and> processMessage example_runtime 1000 0 (Text ''[]7'') small_server = small_server
   \<and> effects small_server = []"
  by (simp add: create_def small_created_def small_server_eq small_config_def example_config_def
      processMessage_def too_long_def example_runtime_def example_parse_def)

section \<open>Subscribing twice\<close>

text \<open>
  C8. Client 0 subscribes to \<open>temperature\<close> twice. The second request stores its token over
  the first without cancelling it: the source has two live listeners for the client, the
  subscription map holds only token 1, token 0 is in no map and not cancelled, and one
  change of the source is delivered twice.
\<close>

theorem C8_resubscribe_orphans_listener:
  "listeners (listenDataSource (request ''temperature'' ''t'') 0
               (listenDataSource (request ''temperature'' ''t'') 0 example_server)) =
     [\<lparr>l_source = 0, l_callback = ScalarCallback 0 (JStr ''temperature''), l_token = 0\<rparr>,
      \<lparr>l_source = 0, l_callback = ScalarCallback 0 (JStr ''temperature''), l_token = 1\<rparr>]
   \<and> subscriptions (client_heap (listenDataSource (request ''temperature'' ''t'') 0
               (listenDataSource (request ''temperature'' ''t'') 0 example_server)) 0)
       = [(JStr ''temperature'', 1)]
   \<and> \<not> token_cancelled (listenDataSource (request ''temperature'' ''t'') 0
               (listenDataSource (request ''temperature'' ''t'') 0 example_server)) 0
   \<and> delivered 0 (DataSource_update 0 (JNum 21)
        (listenDataSource (request ''temperature'' ''t'') 0
               (listenDataSource (request ''temperature'' ''t'') 0 example_server))) =
       [(UPDATE_DATASOURCE, [(''id'', JStr ''temperature''), (''value'', JNum 20)]),
        (UPDATE_DATASOURCE, [(''id'', JStr ''temperature''), (''value'', JNum 20)]),
        (UPDATE_DATASOURCE, [(''id'', JStr ''temperature''), (''value'', JNum 21)]),
        (UPDATE_DATASOURCE, [(''id'', JStr ''temperature''), (''value'', JNum 21)])]"
  by (simp add: example_server_eq request_def registry_get_def handler_defs
      delivered_def allow_all_def Let_def DataSource_update_def fire_frames callback_frame_def)

text \<open>Closing the connection cancels token 1 only: the listener under token 0 delivers
  the next update to the closed session.\<close>

lemma resubscribed_listener_survives_close:
  "subscriptions (client_heap subscribed_twice 0) = [(JStr ''temperature'', 1)]
   \<and> \<not> handles_registered 0 subscribed_twice
   \<and> delivered 0 (on_close 0 subscribed_twice) =
       [(UPDATE_DATASOURCE, [(''id'', JStr ''temperature''), (''value'', JNum 20)]),
        (UPDATE_DATASOURCE, [(''id'', JStr ''temperature''), (''value'', JNum 20)])]
   \<and> delivered 0 (mutations [Update 0 (JNum 21)] (on_close 0 subscribed_twice)) =
       [(UPDATE_DATASOURCE, [(''id'', JStr ''temperature''), (''value'', JNum 20)]),
        (UPDATE_DATASOURCE, [(''id'', JStr ''temperature''), (''value'', JNum 20)]),
        (UPDATE_DATASOURCE, [(''id'', JStr ''temperature''), (''value'', JNum 21)])]"
  by (simp add: subscribed_twice_eq example_server_eq close_defs handles_registered_def)

section \<open>The default authenticator\<close>

text \<open>
  C9. \<open>Router.exposeArrayDataSource\<close> and \<open>Router.exposeDuplexDataSource\<close> called without an
  authenticator store \<open>undefined\<close>, not an allow-all predicate, and calling the stored
  authenticator is a \<open>TypeError\<close>; \<open>Router.exposeDataSource\<close> stores \<open>() => true\<close>.
\<close>

theorem C9_router_stores_no_authenticator:
  "getExposedArrayDataSource (Router_exposeArrayDataSource ''items'' 3 None Router_constructor) ''items''
     = Some \<lparr>endpoint_source = 3, endpoint_authenticator = None\<rparr>
   \<and> getExposedDuplexDataSource (Router_exposeDuplexDataSource ''door'' 2 None Router_constructor) ''door''
     = Some \<lparr>endpoint_source = 2, endpoint_authenticator = None\<rparr>
   \<and> call_authenticator \<lparr>endpoint_source = 3, endpoint_authenticator = None\<rparr> (JStr ''t'') OpRead
     = Inl TypeError
   \<and> call_authenticator \<lparr>endpoint_source = 2, endpoint_authenticator = None\<rparr> (JStr ''t'') OpWrite
     = Inl TypeError
   \<and> getExposedDataSource (Router_exposeDataSource ''temperature'' 0 None Router_constructor) ''temperature''
     = Some \<lparr>endpoint_source = 0, endpoint_authenticator = Some allow_all\<rparr>
   \<and> call_authenticator \<lparr>endpoint_source = 0, endpoint_authenticator = Some allow_all\<rparr> (JStr ''t'') OpRead
     = Inr True"
  by (simp add: getExposedArrayDataSource_def getExposedDuplexDataSource_def getExposedDataSource_def
      Router_exposeArrayDataSource_def Router_exposeDuplexDataSource_def Router_exposeDataSource_def
      Router_constructor_def call_authenticator_def default_authenticator_def allow_all_def)

section \<open>Frames and the time of the last message\<close>

text \<open>
  C10 (as amended). A frame that is not a string changes nothing. A text frame under the
  size limit that parses to a value other than \<open>null\<close> sets the sender's
  \<open>timeSinceLastMessage\<close> to the current time, whatever its kind. A text frame that parses
  to \<open>null\<close> faults on \<open>message.type\<close>; the fault is caught and logged, and no client
  state changes.
\<close>

theorem C10_frames_and_timestamp:
  "processMessage rt now sender (Binary bytes) s = s
   \<and> (\<not> too_long str (maxMessageSize (config s)) \<and> JSON_parse rt str = Some message \<and> \<not> nullish message
        \<longrightarrow> timeSinceLastMessage (client_heap (processMessage rt now sender (Text str) s) sender) = Some now)
   \<and> (\<not> too_long str (maxMessageSize (config s)) \<and> JSON_parse rt str = Some message \<and> nullish message
        \<longrightarrow> processMessage rt now sender (Text str) s = catch_log TypeError s
          \<and> client_heap (processMessage rt now sender (Text str) s) = client_heap s)"
  by (simp add: processMessage_def handlers_keep_time Let_def set_timeSinceLastMessage_def
      catch_log_def emit_def)

theorem C10_frames_and_timestamp_witness:
  "\<not> too_long ''{}'' (maxMessageSize (config example_server))
   \<and> JSON_parse example_runtime ''{}'' = Some (JObj []) \<and> \<not> nullish (JObj [])
   \<and> timeSinceLastMessage (client_heap example_server 0) = None
   \<and> timeSinceLastMessage (client_heap (processMessage example_runtime 1000 0 (Text ''{}'') example_server) 0)
       = Some 1000
   \<and> JSON_parse example_runtime ''null'' = Some JNull \<and> nullish JNull
   \<and> effects (processMessage example_runtime 1000 0 (Text ''null'') example_server)
       = [ConsoleError ''Failed to parse message'', ConsoleErrorFault TypeError]"
proof -
  have short: "\<not> too_long ''{}'' (maxMessageSize (config example_server))"
              "\<not> too_long ''null'' (maxMessageSize (config example_server))"
    by (simp_all add: example_server_eq too_long_def)
  have parse: "JSON_parse example_runtime ''{}'' = Some (JObj [])"
              "JSON_parse example_runtime ''null'' = Some JNull"
    by (simp_all add: example_runtime_def example_parse_def)
  have n: "\<not> nullish (JObj [])" "nullish JNull"
    by (simp_all add: nullish_def)
  have start: "timeSinceLastMessage (client_heap example_server 0) = None" "effects example_server = []"
    by (simp_all add: example_server_eq)
  show ?thesis
    using short parse n start
      C10_frames_and_timestamp [of example_runtime 1000 0 "[]" example_server "''{}''" "JObj []"]
      C10_frames_and_timestamp [of example_runtime 1000 0 "[]" example_server "''null''" "JNull"]
    by (simp add: catch_log_def emit_def)
qed

text \<open>The frame \<open>null\<close> parses, and the timestamp is not updated.\<close>

theorem C10_null_frame_keeps_timestamp:
  "\<not> too_long ''null'' (maxMessageSize (config example_server))
   \<and> JSON_parse example_runtime ''null'' = Some JNull
   \<and> timeSinceLastMessage
        (client_heap (processMessage example_runtime 1000 0 (Text ''null'') example_server) 0) = None"
  by (simp add: example_server_eq too_long_def example_runtime_def example_parse_def
      processMessage_def nullish_def catch_log_def emit_def)

end
